theory Spec2Isabelle
  imports Main "HOL-Library.Word"
begin

section \<open>Timestamps and timezones (app/utils/timezone\_utils.py)\<close>

text \<open>
  A Python \<open>datetime\<close>: the wall-clock reading, counted in microseconds from the epoch as
  if the reading were UTC, and the UTC offset of its \<open>tzinfo\<close> (\<open>None\<close> for a naive
  value). The instant an aware value denotes is \<open>wall - offset\<close>.
\<close>

record datetime =
  wall :: int
  utcoffset :: "int option"

text \<open>
  A pytz timezone, as far as the code uses it: the offset in force at a UTC instant
  (\<open>fromutc\<close>, used by \<open>astimezone\<close> and \<open>datetime.now(tz)\<close>) and the offset
  \<open>localize\<close> picks for a naive wall-clock reading. The timezone database, an external
  collaborator, maps an identifier to a timezone or does not know it.
\<close>

record tzinfo =
  offset_at_utc :: "int \<Rightarrow> int"
  offset_at_wall :: "int \<Rightarrow> int"

type_synonym tzdb = "string \<Rightarrow> tzinfo option"

datatype detail = DInt int | DDatetime datetime

type_synonym details = "(string \<times> detail) list"

text \<open>
  The exceptions of app/utils/exceptions.py (message and details), and the library
  exceptions the modelled code can meet: the \<open>TypeError\<close> of comparing a naive with an
  aware datetime, pytz's \<open>UnknownTimeZoneError\<close>, the store's \<open>IntegrityError\<close> on a
  violated uniqueness constraint, the \<open>OverflowError\<close> of binding an integer the store's
  64-bit column cannot hold, any other failure of the store, the \<open>AttributeError\<close> of
  reading an attribute of \<open>None\<close>, and pydantic's \<open>ValidationError\<close>.
\<close>

datatype exn =
    ClassNotFoundException string details
  | NoSlotsAvailableException string details
  | InvalidBookingDataException string details
  | DuplicateBookingException string details
  | TypeError string
  | UnknownTimeZoneError string
  | IntegrityError string
  | OverflowError string
  | StoreError string
  | AttributeError string
  | ValidationError string

text \<open>\<open>str(e)\<close>: the message; for the \<open>KeyError\<close> subclass of pytz the quoted key.\<close>

fun exn_str :: "exn \<Rightarrow> string" where
  "exn_str (ClassNotFoundException m d) = m"
| "exn_str (NoSlotsAvailableException m d) = m"
| "exn_str (InvalidBookingDataException m d) = m"
| "exn_str (DuplicateBookingException m d) = m"
| "exn_str (TypeError m) = m"
| "exn_str (UnknownTimeZoneError k) = [CHR 0x27] @ k @ [CHR 0x27]"
| "exn_str (IntegrityError m) = m"
| "exn_str (OverflowError m) = m"
| "exn_str (StoreError m) = m"
| "exn_str (AttributeError m) = m"
| "exn_str (ValidationError m) = m"

record TimezoneManager =
  default_tz :: tzinfo

text \<open>\<open>tz.localize(dt)\<close> on a naive value, and \<open>tz.fromutc\<close> on a UTC instant.\<close>

definition localize :: "tzinfo \<Rightarrow> datetime \<Rightarrow> datetime" where
  "localize tz dt = dt\<lparr>utcoffset := Some (offset_at_wall tz (wall dt))\<rparr>"

definition fromutc :: "tzinfo \<Rightarrow> int \<Rightarrow> datetime" where
  "fromutc tz u = \<lparr>wall = u + offset_at_utc tz u, utcoffset = Some (offset_at_utc tz u)\<rparr>"

text \<open>
  \<open>dt.astimezone(tz)\<close> of an aware value: through its UTC instant. The naive case
  (Python reads it in the system's local zone) does not occur below: the one caller
  localizes a naive value first; it is given the reading as UTC.
\<close>

definition astimezone :: "tzinfo \<Rightarrow> datetime \<Rightarrow> datetime" where
  "astimezone tz dt =
     (case utcoffset dt of
        Some off \<Rightarrow> fromutc tz (wall dt - off)
      | None \<Rightarrow> fromutc tz (wall dt))"

text \<open>
  \<^verbatim>\<open>
  def convert_timezone(self, dt, target_timezone):
      if dt.tzinfo is None:
          dt = self.default_tz.localize(dt)
      target_tz = pytz.timezone(target_timezone)
      return dt.astimezone(target_tz)
  \<close>
\<close>

definition convert_timezone ::
  "TimezoneManager \<Rightarrow> tzdb \<Rightarrow> datetime \<Rightarrow> string \<Rightarrow> exn + datetime" where
  "convert_timezone tzm db dt target_timezone =
     (let dt1 = (if utcoffset dt = None then localize (default_tz tzm) dt else dt) in
      case db target_timezone of
        None \<Rightarrow> Inl (UnknownTimeZoneError target_timezone)
      | Some target_tz \<Rightarrow> Inr (astimezone target_tz dt1))"

text \<open>Python's \<open>a < b\<close> and \<open>a > b\<close> on datetimes: mixing naive and aware raises.\<close>

definition dt_less :: "datetime \<Rightarrow> datetime \<Rightarrow> exn + bool" where
  "dt_less a b =
     (case utcoffset a of
        None \<Rightarrow>
          (case utcoffset b of
             None \<Rightarrow> Inr (wall a < wall b)
           | Some y \<Rightarrow> Inl (TypeError ''can't compare offset-naive and offset-aware datetimes''))
      | Some x \<Rightarrow>
          (case utcoffset b of
             None \<Rightarrow> Inl (TypeError ''can't compare offset-naive and offset-aware datetimes'')
           | Some y \<Rightarrow> Inr (wall a - x < wall b - y)))"

definition dt_le :: "datetime \<Rightarrow> datetime \<Rightarrow> exn + bool" where
  "dt_le a b =
     (case utcoffset a of
        None \<Rightarrow>
          (case utcoffset b of
             None \<Rightarrow> Inr (wall a \<le> wall b)
           | Some y \<Rightarrow> Inl (TypeError ''can't compare offset-naive and offset-aware datetimes''))
      | Some x \<Rightarrow>
          (case utcoffset b of
             None \<Rightarrow> Inl (TypeError ''can't compare offset-naive and offset-aware datetimes'')
           | Some y \<Rightarrow> Inr (wall a - x \<le> wall b - y)))"

section \<open>Strings\<close>

text \<open>
  A Python \<open>str\<close> is a sequence of Unicode code points, and \<open>len\<close> counts them: a
  client's name is a list of numbers. What \<open>str.strip\<close> and \<open>str.title\<close> do with a
  code point is decided by the Unicode character database of the interpreter, an
  external table, which is a parameter: whether a code point is whitespace
  (\<open>Py_UNICODE_ISSPACE\<close>), whether it is cased, its title-case mapping, and the
  lower-case mapping of the code point at an index of a string (one code point, the
  capital sigma, is mapped by its neighbours). The mappings give sequences, since a
  mapping can give more than one code point.
\<close>

type_synonym ustr = "nat list"

record ucd =
  isspace :: "nat \<Rightarrow> bool"
  iscased :: "nat \<Rightarrow> bool"
  totitle :: "nat \<Rightarrow> ustr"
  lower_at :: "ustr \<Rightarrow> nat \<Rightarrow> ustr"

text \<open>\<open>s.strip()\<close>: the whitespace at both ends is dropped.\<close>

definition strip :: "ucd \<Rightarrow> ustr \<Rightarrow> ustr" where
  "strip u s = rev (dropWhile (isspace u) (rev (dropWhile (isspace u) s)))"

text \<open>
  \<open>s.title()\<close>: the code point at an index is lower-cased when the code point before
  it is cased, and title-cased otherwise.
\<close>

definition title :: "ucd \<Rightarrow> ustr \<Rightarrow> ustr" where
  "title u s =
     concat (map (\<lambda>i. if 0 < i \<and> iscased u (s ! (i - 1)) then lower_at u s i
                          else totitle u (s ! i))
                 [0..<length s])"

text \<open>The code points of a literal of ASCII characters.\<close>

definition codes :: "string \<Rightarrow> ustr" where
  "codes s = map of_char s"

text \<open>
  What the database says of the ASCII code points: the whitespace is tab, LF, VT, FF,
  CR, FS, GS, RS, US and the space; the cased code points are the 52 letters; a
  lower-case letter is title-cased to its capital, a capital lower-cased to its small
  letter, and every other code point is mapped to itself.
\<close>

definition ascii_space :: "nat \<Rightarrow> bool" where
  "ascii_space c = (c \<in> set [9, 10, 11, 12, 13, 28, 29, 30, 31, 32])"

definition ascii_cased :: "nat \<Rightarrow> bool" where
  "ascii_cased c = (65 \<le> c \<and> c \<le> 90 \<or> 97 \<le> c \<and> c \<le> 122)"

definition ascii_totitle :: "nat \<Rightarrow> ustr" where
  "ascii_totitle c = [if 97 \<le> c \<and> c \<le> 122 then c - 32 else c]"

definition ascii_tolower :: "nat \<Rightarrow> ustr" where
  "ascii_tolower c = [if 65 \<le> c \<and> c \<le> 90 then c + 32 else c]"

definition extends_ascii :: "ucd \<Rightarrow> bool" where
  "extends_ascii u =
     ((\<forall>c. c < 128 \<longrightarrow>
         isspace u c = ascii_space c \<and> iscased u c = ascii_cased c \<and>
         totitle u c = ascii_totitle c) \<and>
      (\<forall>s i. i < length s \<and> s ! i < 128 \<longrightarrow> lower_at u s i = ascii_tolower (s ! i)))"

section \<open>The environment of a call\<close>

text \<open>
  What a call reads from outside the program: the timezone database, the module-level
  timezone manager, the clock (a UTC instant), the timezone of the machine, the Unicode
  character database, the value \<open>uuid.uuid4()\<close> draws, and the failure, if any, with
  which the store answers a commit and a refresh.
\<close>

record env =
  tzdb_of :: tzdb
  tz_manager :: TimezoneManager
  now_utc :: int
  system_tz :: tzinfo
  char_db :: ucd
  uuid4 :: "128 word"
  commit_fault :: "string option"
  refresh_fault :: "string option"

text \<open>\<open>datetime.now(tz=tz_manager.default_tz)\<close> and \<open>tz_manager.get_current_time()\<close>.\<close>

definition get_current_time :: "env \<Rightarrow> datetime" where
  "get_current_time e = fromutc (default_tz (tz_manager e)) (now_utc e)"

text \<open>\<open>datetime.now()\<close>: the reading of the machine's clock, without offset.\<close>

definition local_now :: "env \<Rightarrow> datetime" where
  "local_now e =
     \<lparr>wall = now_utc e + offset_at_utc (system_tz e) (now_utc e), utcoffset = None\<rparr>"

section \<open>Upper-casing hexadecimal digits\<close>

text \<open>
  \<open>str.upper\<close> as the booking reference uses it, on the digits and the letters a to f
  of a hexadecimal numeral: a small letter becomes its capital, a digit stays.
\<close>

definition ascii_lowercase :: string where
  "ascii_lowercase = ''abcdefghijklmnopqrstuvwxyz''"

definition ascii_uppercase :: string where
  "ascii_uppercase = ''ABCDEFGHIJKLMNOPQRSTUVWXYZ''"

definition upper_char :: "char \<Rightarrow> char" where
  "upper_char c =
     (case map_of (zip ascii_lowercase ascii_uppercase) c of Some u \<Rightarrow> u | None \<Rightarrow> c)"

definition upper :: "string \<Rightarrow> string" where
  "upper s = map upper_char s"

section \<open>Request validation (app/schemas/booking.py)\<close>

datatype field_error =
    TooShort nat
  | TooLong nat
  | BelowMinimum int
  | ValueError string
  | InvalidEmail

text \<open>
  \<^verbatim>\<open>
  @validator('client_name')
  def validate_client_name(cls, v):
      if not v.strip():
          raise ValueError('Client name cannot be empty')
      return v.strip().title()
  \<close>
\<close>

definition validate_client_name :: "ucd \<Rightarrow> ustr \<Rightarrow> field_error + ustr" where
  "validate_client_name u v =
     (if strip u v = [] then Inl (ValueError ''Client name cannot be empty'')
      else Inr (title u (strip u v)))"

text \<open>
  The field \<open>client_name: str = Field(..., min_length=2, max_length=100)\<close>: the length
  constraints are checked on the value as received, then the validator runs.
\<close>

definition client_name_field :: "ucd \<Rightarrow> ustr \<Rightarrow> field_error + ustr" where
  "client_name_field u v =
     (if length v < 2 then Inl (TooShort 2)
      else if 100 < length v then Inl (TooLong 100)
      else validate_client_name u v)"

section \<open>Formatting integers\<close>

text \<open>\<open>str(n)\<close> of an integer, as an f-string inserts it.\<close>

fun digits :: "nat \<Rightarrow> string" where
  "digits n =
     (if n < 10 then [''0123456789'' ! n]
      else digits (n div 10) @ [''0123456789'' ! (n mod 10)])"

declare digits.simps [simp del]

definition str_int :: "int \<Rightarrow> string" where
  "str_int i = (if i < 0 then CHR ''-'' # digits (nat (- i)) else digits (nat i))"

section \<open>The data model (app/models/booking.py)\<close>

text \<open>
  The two tables. The bookkeeping columns \<open>created_at\<close> and \<open>updated_at\<close> are left
  out; \<open>fc_id\<close> and \<open>b_id\<close> are the primary keys \<open>id\<close>.
\<close>

record FitnessClass =
  fc_id :: int
  name :: string
  description :: "string option"
  instructor :: string
  class_datetime :: datetime
  duration_minutes :: int
  max_slots :: int
  available_slots :: int
  is_active :: bool

record Booking =
  b_id :: int
  class_id :: int
  client_name :: ustr
  client_email :: string
  booking_status :: string
  booking_reference :: string
  b_notes :: "string option"

definition booked_slots :: "FitnessClass \<Rightarrow> int" where
  "booked_slots c = max_slots c - available_slots c"

definition is_fully_booked :: "FitnessClass \<Rightarrow> bool" where
  "is_fully_booked c = (available_slots c \<le> 0)"

text \<open>\<open>self.class_datetime < datetime.now(tz=tz_manager.default_tz)\<close>\<close>

definition is_past :: "env \<Rightarrow> FitnessClass \<Rightarrow> exn + bool" where
  "is_past e c = dt_less (class_datetime c) (get_current_time e)"

definition booking_is_active :: "Booking \<Rightarrow> bool" where
  "booking_is_active b = (booking_status b = ''confirmed'')"

text \<open>The validated request body \<open>BookingCreate\<close>.\<close>

record BookingCreate =
  bc_class_id :: int
  bc_client_name :: ustr
  bc_client_email :: string
  bc_notes :: "string option"

section \<open>The store and the session\<close>

text \<open>
  The rows of the two tables, in insertion order. A SQLAlchemy session is the committed
  rows (\<open>store\<close>) and the session's own view (\<open>work\<close>): queries read the view,
  attribute assignments and \<open>add\<close> change the view only, \<open>commit\<close> makes the view the
  committed state, \<open>rollback\<close> (and closing the session) drops what was not committed.
\<close>

record db =
  classes :: "FitnessClass list"
  bookings :: "Booking list"

record session =
  store :: db
  work :: db

definition open_session :: "db \<Rightarrow> session" where
  "open_session d = \<lparr>store = d, work = d\<rparr>"

definition db_rollback :: "session \<Rightarrow> session" where
  "db_rollback s = s\<lparr>work := store s\<rparr>"

text \<open>
  \<open>db.commit()\<close>: fails with the store's own failure if there is one, and with an
  \<open>IntegrityError\<close> when the rows to write break the uniqueness constraint on
  \<open>booking_reference\<close> (\<open>unique=True\<close>); otherwise the view is committed.
\<close>

definition db_commit :: "env \<Rightarrow> session \<Rightarrow> exn + session" where
  "db_commit e s =
     (case commit_fault e of
        Some m \<Rightarrow> Inl (StoreError m)
      | None \<Rightarrow>
          if distinct (map booking_reference (bookings (work s)))
          then Inr (s\<lparr>store := work s\<rparr>)
          else Inl (IntegrityError ''UNIQUE constraint failed: bookings.booking_reference''))"

text \<open>An assignment to an attribute of a loaded object changes that object's row.\<close>

fun update_first :: "('a \<Rightarrow> bool) \<Rightarrow> ('a \<Rightarrow> 'a) \<Rightarrow> 'a list \<Rightarrow> 'a list" where
  "update_first P f [] = []"
| "update_first P f (x # xs) = (if P x then f x # xs else x # update_first P f xs)"

definition set_classes :: "FitnessClass list \<Rightarrow> session \<Rightarrow> session" where
  "set_classes cs s = s\<lparr>work := (work s)\<lparr>classes := cs\<rparr>\<rparr>"

definition mutate_class :: "FitnessClass \<Rightarrow> (FitnessClass \<Rightarrow> FitnessClass) \<Rightarrow> session \<Rightarrow> session" where
  "mutate_class c f s = set_classes (update_first (\<lambda>r. r = c) f (classes (work s))) s"

text \<open>The key the store gives a new row: one more than the largest key in the table.\<close>

definition next_booking_id :: "Booking list \<Rightarrow> int" where
  "next_booking_id bs = fold max (map b_id bs) 0 + 1"

definition next_class_id :: "FitnessClass list \<Rightarrow> int" where
  "next_class_id cs = fold max (map fc_id cs) 0 + 1"

definition db_add :: "Booking \<Rightarrow> session \<Rightarrow> session" where
  "db_add b s = s\<lparr>work := (work s)\<lparr>bookings := bookings (work s) @ [b]\<rparr>\<rparr>"

text \<open>\<open>db.refresh(b)\<close> reads the committed row again: the row, or the store's failure.\<close>

definition db_refresh :: "env \<Rightarrow> Booking \<Rightarrow> exn + Booking" where
  "db_refresh e b = (case refresh_fault e of Some m \<Rightarrow> Inl (StoreError m) | None \<Rightarrow> Inr b)"

section \<open>The booking service (app/services/booking.py)\<close>

subsection \<open>Booking references\<close>

text \<open>
  \<open>uuid.uuid4().hex\<close> is the 128-bit value in 32 lower-case hexadecimal digits, the
  most significant first.
  \<^verbatim>\<open>
  def _generate_booking_reference(self) -> str:
      return f"FB{uuid.uuid4().hex[:8].upper()}"
  \<close>
\<close>

definition hex_digit :: "nat \<Rightarrow> char" where
  "hex_digit n = ''0123456789abcdef'' ! (n mod 16)"

definition uuid_hex :: "128 word \<Rightarrow> string" where
  "uuid_hex u = map (\<lambda>i. hex_digit (unat (drop_bit (4 * (31 - i)) u))) [0..<32]"

definition generate_booking_reference :: "env \<Rightarrow> string" where
  "generate_booking_reference e = ''FB'' @ upper (take 8 (uuid_hex (uuid4 e)))"

subsection \<open>Looking a class up\<close>

text \<open>
  The key column holds 64-bit integers: the query for an id outside that range raises
  when the id is bound, before any row is looked at.
\<close>

definition get_class_by_id :: "session \<Rightarrow> int \<Rightarrow> exn + FitnessClass" where
  "get_class_by_id s cid =
     (if cid < - (2 ^ 63) \<or> 2 ^ 63 \<le> cid then
        Inl (OverflowError ''Python int too large to convert to SQLite INTEGER'')
      else
        case find (\<lambda>c. fc_id c = cid \<and> is_active c) (classes (work s)) of
          None \<Rightarrow>
            Inl (ClassNotFoundException
                  (''Class with ID '' @ str_int cid @ '' not found or inactive'')
                  [(''class_id'', DInt cid)])
        | Some c \<Rightarrow> Inr c)"

subsection \<open>Creating a booking\<close>

text \<open>The query for an existing confirmed booking of the same class and email.\<close>

definition existing_booking :: "session \<Rightarrow> BookingCreate \<Rightarrow> Booking option" where
  "existing_booking s bd =
     find (\<lambda>b. class_id b = bc_class_id bd \<and> client_email b = bc_client_email bd \<and>
               booking_status b = ''confirmed'')
          (bookings (work s))"

definition new_booking :: "env \<Rightarrow> session \<Rightarrow> BookingCreate \<Rightarrow> Booking" where
  "new_booking e s bd =
     \<lparr>b_id = next_booking_id (bookings (work s)),
      class_id = bc_class_id bd,
      client_name = bc_client_name bd,
      client_email = bc_client_email bd,
      booking_status = ''confirmed'',
      booking_reference = generate_booking_reference e,
      b_notes = bc_notes bd\<rparr>"

text \<open>
  The body of the \<open>try\<close> block of \<open>create_booking\<close>: the four checks in the order of
  the source, then the write: the decrement, \<open>add\<close>, \<open>commit\<close> and \<open>refresh\<close>. An exception
  leaves with the session as it stands; one raised by \<open>refresh\<close> leaves after the commit.
\<close>

definition create_booking_try ::
  "env \<Rightarrow> BookingCreate \<Rightarrow> session \<Rightarrow> (exn + Booking) \<times> session" where
  "create_booking_try e bd s =
     (case get_class_by_id s (bc_class_id bd) of
        Inl x \<Rightarrow> (Inl x, s)
      | Inr fitness_class \<Rightarrow>
     (case is_past e fitness_class of
        Inl x \<Rightarrow> (Inl x, s)
      | Inr past \<Rightarrow>
          if past then
            (Inl (InvalidBookingDataException
                    ''Cannot book a class that has already occurred''
                    [(''class_datetime'', DDatetime (class_datetime fitness_class))]), s)
          else if available_slots fitness_class \<le> 0 then
            (Inl (NoSlotsAvailableException
                    (''No available slots for class '' @ [CHR 0x27] @ name fitness_class
                       @ [CHR 0x27])
                    [(''class_id'', DInt (bc_class_id bd)),
                     (''available_slots'', DInt (available_slots fitness_class))]), s)
          else
     (case existing_booking s bd of
        Some b \<Rightarrow>
          (Inl (DuplicateBookingException
                  (''Client '' @ bc_client_email bd @ '' already has a booking for this class'')
                  [(''existing_booking_id'', DInt (b_id b))]), s)
      | None \<Rightarrow>
          (let nb = new_booking e s bd;
               s1 = mutate_class fitness_class
                      (\<lambda>c. c\<lparr>available_slots := available_slots c - 1\<rparr>) s;
               s2 = db_add nb s1
           in case db_commit e s2 of
                Inl x \<Rightarrow> (Inl x, s2)
              | Inr s3 \<Rightarrow>
                  (case db_refresh e nb of
                     Inl x \<Rightarrow> (Inl x, s3)
                   | Inr b \<Rightarrow> (Inr b, s3))))))"

fun is_domain_exception :: "exn \<Rightarrow> bool" where
  "is_domain_exception (ClassNotFoundException m d) = True"
| "is_domain_exception (NoSlotsAvailableException m d) = True"
| "is_domain_exception (DuplicateBookingException m d) = True"
| "is_domain_exception (InvalidBookingDataException m d) = True"
| "is_domain_exception x = False"

text \<open>
  The two \<open>except\<close> clauses: a domain exception is re-raised after a rollback; any
  other exception is rolled back and raised again as
  \<open>InvalidBookingDataException(f"Failed to create booking: {str(e)}")\<close>, whose details
  default to the empty dictionary.
\<close>

definition reraised :: "exn \<Rightarrow> exn" where
  "reraised x =
     (if is_domain_exception x then x
      else InvalidBookingDataException (''Failed to create booking: '' @ exn_str x) [])"

definition create_booking ::
  "env \<Rightarrow> BookingCreate \<Rightarrow> session \<Rightarrow> (exn + Booking) \<times> session" where
  "create_booking e bd s =
     (case create_booking_try e bd s of
        (Inr b, s') \<Rightarrow> (Inr b, s')
      | (Inl x, s') \<Rightarrow> (Inl (reraised x), db_rollback s'))"

subsection \<open>Listing the upcoming classes\<close>

text \<open>
  The UTC instant of a stored timestamp, a naive one read as a wall-clock time of the
  reference timezone: the store's filter \<open>class_datetime > current_time\<close> and its
  \<open>order_by\<close> compare by it.
\<close>

definition instant :: "TimezoneManager \<Rightarrow> datetime \<Rightarrow> int" where
  "instant tzm dt =
     (case utcoffset dt of
        Some off \<Rightarrow> wall dt - off
      | None \<Rightarrow> wall dt - offset_at_wall (default_tz tzm) (wall dt))"

definition upcoming :: "env \<Rightarrow> FitnessClass list \<Rightarrow> FitnessClass list" where
  "upcoming e cs =
     (let current_time = get_current_time e in
      sort_key (\<lambda>c. instant (tz_manager e) (class_datetime c))
        (filter (\<lambda>c. is_active c \<and>
                   instant (tz_manager e) current_time
                     < instant (tz_manager e) (class_datetime c)) cs))"

text \<open>
  The loop \<open>for fitness_class in classes: fitness_class.class_datetime = ...\<close>: each
  assignment changes the loaded object, that is the session's view of the row. A
  conversion that raises leaves the earlier assignments in the session.
\<close>

fun convert_classes ::
  "env \<Rightarrow> string \<Rightarrow> FitnessClass list \<Rightarrow> session \<Rightarrow> (exn + FitnessClass list) \<times> session" where
  "convert_classes e tz [] s = (Inr [], s)"
| "convert_classes e tz (c # cs) s =
     (case convert_timezone (tz_manager e) (tzdb_of e) (class_datetime c) tz of
        Inl x \<Rightarrow> (Inl x, s)
      | Inr dt \<Rightarrow>
          (case convert_classes e tz cs (mutate_class c (\<lambda>r. r\<lparr>class_datetime := dt\<rparr>) s) of
             (Inl x, s') \<Rightarrow> (Inl x, s')
           | (Inr cs', s') \<Rightarrow> (Inr (c\<lparr>class_datetime := dt\<rparr> # cs'), s')))"

text \<open>
  \<open>get_all_classes\<close>: the conversion runs \<open>if timezone and classes\<close>, that is for a
  timezone that is given and not the empty string, when at least one class was found.
  The \<open>except\<close> clause logs and re-raises; nothing is committed or rolled back.
\<close>

definition get_all_classes ::
  "env \<Rightarrow> string option \<Rightarrow> session \<Rightarrow> (exn + FitnessClass list) \<times> session" where
  "get_all_classes e timezone s =
     (let found = upcoming e (classes (work s)) in
      case timezone of
        None \<Rightarrow> (Inr found, s)
      | Some tz \<Rightarrow>
          if tz \<noteq> [] \<and> found \<noteq> [] then convert_classes e tz found s
          else (Inr found, s))"

subsection \<open>The sample classes\<close>

text \<open>\<open>dt.replace(hour=h, minute=m, second=0, microsecond=0)\<close>, in microseconds.\<close>

definition replace_time :: "datetime \<Rightarrow> int \<Rightarrow> int \<Rightarrow> datetime" where
  "replace_time dt h m =
     dt\<lparr>wall := (wall dt div 86400000000) * 86400000000 + (h * 3600 + m * 60) * 1000000\<rparr>"

definition sample_class ::
  "int \<Rightarrow> string \<Rightarrow> string \<Rightarrow> string \<Rightarrow> datetime \<Rightarrow> int \<Rightarrow> int \<Rightarrow> FitnessClass" where
  "sample_class i n d ins dt dur slots =
     \<lparr>fc_id = i, name = n, description = Some d, instructor = ins, class_datetime = dt,
      duration_minutes = dur, max_slots = slots, available_slots = slots, is_active = True\<rparr>"

definition sample_classes :: "env \<Rightarrow> int \<Rightarrow> FitnessClass list" where
  "sample_classes e i =
     [sample_class i ''Morning Yoga'' ''Start your day with peaceful yoga practice''
        ''Sarah Johnson'' (replace_time (get_current_time e) 8 0) 60 15,
      sample_class (i + 1) ''High Energy Zumba''
        ''Dance your way to fitness with energetic Zumba''
        ''Carlos Rodriguez'' (replace_time (get_current_time e) 18 30) 45 20,
      sample_class (i + 2) ''HIIT Intensive''
        ''High-intensity interval training for maximum results''
        ''Mike Thompson'' (replace_time (get_current_time e) 19 0) 30 12]"

text \<open>
  \<open>create_sample_classes\<close>: nothing when the table has a row; otherwise the three
  classes are added and committed, and a failure is rolled back and re-raised.
\<close>

definition create_sample_classes :: "env \<Rightarrow> session \<Rightarrow> exn option \<times> session" where
  "create_sample_classes e s =
     (if 0 < length (classes (work s)) then (None, s)
      else
        (let s1 = set_classes
                    (classes (work s) @ sample_classes e (next_class_id (classes (work s)))) s
         in case db_commit e s1 of
              Inl x \<Rightarrow> (Some x, db_rollback s1)
            | Inr s2 \<Rightarrow> (None, s2)))"

section \<open>A request to book (app/api/v1/routes/booking.py)\<close>

text \<open>
  The body of \<open>POST /api/v1/book\<close> as received, and its validation into a
  \<open>BookingCreate\<close>. Checking and normalising an email address is the work of the
  external \<open>EmailStr\<close> type: it is a parameter, \<open>None\<close> for an address it refuses.
  Every field is validated and the errors are collected.
\<close>

record BookingRequest =
  rq_class_id :: int
  rq_client_name :: ustr
  rq_client_email :: string
  rq_notes :: "string option"

definition BookingCreate_errors ::
  "ucd \<Rightarrow> (string \<Rightarrow> string option) \<Rightarrow> BookingRequest \<Rightarrow> (string \<times> field_error) list" where
  "BookingCreate_errors u email_str rq =
     (if rq_class_id rq < 1 then [(''class_id'', BelowMinimum 1)] else [])
     @ (case client_name_field u (rq_client_name rq) of
          Inl x \<Rightarrow> [(''client_name'', x)] | Inr n \<Rightarrow> [])
     @ (case email_str (rq_client_email rq) of
          None \<Rightarrow> [(''client_email'', InvalidEmail)] | Some a \<Rightarrow> [])
     @ (case rq_notes rq of
          None \<Rightarrow> []
        | Some n \<Rightarrow> if 500 < length n then [(''notes'', TooLong 500)] else [])"

definition parse_BookingCreate ::
  "ucd \<Rightarrow> (string \<Rightarrow> string option) \<Rightarrow> BookingRequest
     \<Rightarrow> (string \<times> field_error) list + BookingCreate" where
  "parse_BookingCreate u email_str rq =
     (case client_name_field u (rq_client_name rq) of
        Inl x \<Rightarrow> Inl (BookingCreate_errors u email_str rq)
      | Inr n \<Rightarrow>
          (case email_str (rq_client_email rq) of
             None \<Rightarrow> Inl (BookingCreate_errors u email_str rq)
           | Some a \<Rightarrow>
               if BookingCreate_errors u email_str rq = [] then
                 Inr \<lparr>bc_class_id = rq_class_id rq, bc_client_name = n,
                      bc_client_email = a, bc_notes = rq_notes rq\<rparr>
               else Inl (BookingCreate_errors u email_str rq)))"

text \<open>
  The response body of a booking. The route reads the booking's class through the
  relationship \<open>booking.fitness_class\<close>, converts its timestamp to the reference
  timezone and hands all of it to \<open>BookingResponse\<close>, whose class part runs the
  validator of \<open>FitnessClassBase\<close>:
  \<^verbatim>\<open>
  @validator('class_datetime')
  def validate_future_datetime(cls, v):
      if v <= datetime.now():
          raise ValueError('Class datetime must be in the future')
      return v
  \<close>
  The other constraints of the response schema (lengths and ranges) are left out: they
  can only add failures, and the comparison of the validator raises for every converted
  timestamp, as \<open>booking_response_raises\<close> shows below.
\<close>

definition DEFAULT_TIMEZONE :: string where
  "DEFAULT_TIMEZONE = ''Asia/Kolkata''"

definition validate_future_datetime :: "env \<Rightarrow> datetime \<Rightarrow> exn + datetime" where
  "validate_future_datetime e v =
     (case dt_le v (local_now e) of
        Inl x \<Rightarrow> Inl x
      | Inr past \<Rightarrow>
          if past then Inl (ValidationError ''Class datetime must be in the future'')
          else Inr v)"

record BookingResponse =
  br_booking :: Booking
  br_fitness_class :: FitnessClass

definition booking_response :: "env \<Rightarrow> Booking \<Rightarrow> session \<Rightarrow> exn + BookingResponse" where
  "booking_response e b s =
     (case find (\<lambda>c. fc_id c = class_id b) (classes (work s)) of
        None \<Rightarrow>
          Inl (AttributeError
                ([CHR 0x27] @ ''NoneType'' @ [CHR 0x27] @ '' object has no attribute ''
                   @ [CHR 0x27] @ ''id'' @ [CHR 0x27]))
      | Some c \<Rightarrow>
          (case convert_timezone (tz_manager e) (tzdb_of e) (class_datetime c) DEFAULT_TIMEZONE of
             Inl x \<Rightarrow> Inl x
           | Inr dt \<Rightarrow>
               (case validate_future_datetime e dt of
                  Inl x \<Rightarrow> Inl x
                | Inr dt' \<Rightarrow>
                    Inr \<lparr>br_booking = b, br_fitness_class = c\<lparr>class_datetime := dt'\<rparr>\<rparr>)))"

text \<open>
  What the caller is told. A body that fails validation is answered 422 by the
  framework and the route is not entered. The route's \<open>except\<close> clauses turn the
  exceptions of the service into \<open>create_http_exception(status, e.message, e.details)\<close>
  and every other exception, also one of building the response, into the answer 500.
\<close>

datatype outcome =
    Rejected "(string \<times> field_error) list"
  | Failed nat string details
  | Created BookingResponse


fun http_exception :: "exn \<Rightarrow> outcome" where
  "http_exception (ClassNotFoundException m d) = Failed 404 m d"
| "http_exception (NoSlotsAvailableException m d) = Failed 409 m d"
| "http_exception (DuplicateBookingException m d) = Failed 409 m d"
| "http_exception (InvalidBookingDataException m d) = Failed 400 m d"
| "http_exception x = Failed 500 ''Failed to create booking'' []"

text \<open>
  One request against the committed rows: the session is opened on them and closed at
  the end of the request, which drops what the session did not commit. The service call
  and the building of the response stand in one \<open>try\<close> block.
\<close>

definition post_book ::
  "(string \<Rightarrow> string option) \<Rightarrow> env \<Rightarrow> BookingRequest \<Rightarrow> db \<Rightarrow> outcome \<times> db" where
  "post_book email_str e rq d =
     (case parse_BookingCreate (char_db e) email_str rq of
        Inl errs \<Rightarrow> (Rejected errs, d)
      | Inr bd \<Rightarrow>
          (case create_booking e bd (open_session d) of
             (Inl x, s') \<Rightarrow> (http_exception x, store s')
           | (Inr b, s') \<Rightarrow>
               (case booking_response e b s' of
                  Inl x \<Rightarrow> (http_exception x, store s')
                | Inr r \<Rightarrow> (Created r, store s'))))"

section \<open>Reachable states and invariants\<close>

text \<open>
  The committed states the service's operations lead to from a state \<open>d0\<close>, each
  operation in a session of its own. (\<open>get_bookings_by_email\<close> only reads.)
\<close>

inductive reachable :: "db \<Rightarrow> db \<Rightarrow> bool" for d0 :: db where
  start: "reachable d0 d0"
| booked: "reachable d0 d \<Longrightarrow>
    reachable d0 (store (snd (create_booking e bd (open_session d))))"
| listed: "reachable d0 d \<Longrightarrow>
    reachable d0 (store (snd (get_all_classes e timezone (open_session d))))"
| seeded: "reachable d0 d \<Longrightarrow>
    reachable d0 (store (snd (create_sample_classes e (open_session d))))"

definition slots_invariant :: "FitnessClass \<Rightarrow> bool" where
  "slots_invariant c =
     (0 \<le> available_slots c \<and> available_slots c \<le> max_slots c \<and>
      available_slots c + booked_slots c = max_slots c)"

definition confirmed_for :: "db \<Rightarrow> int \<Rightarrow> string \<Rightarrow> Booking list" where
  "confirmed_for d cid email =
     filter (\<lambda>b. class_id b = cid \<and> client_email b = email \<and> booking_status b = ''confirmed'')
            (bookings d)"

text \<open>
  The session \<open>create_booking\<close> tries to commit once the four checks have passed: the
  class found with one slot less, and the new booking added.
\<close>

definition pending :: "env \<Rightarrow> BookingCreate \<Rightarrow> FitnessClass \<Rightarrow> session \<Rightarrow> session" where
  "pending e bd c s =
     db_add (new_booking e s bd)
       (mutate_class c (\<lambda>r. r\<lparr>available_slots := available_slots r - 1\<rparr>) s)"

section \<open>Example data\<close>

text \<open>
  The reference timezone (UTC+5:30, in microseconds), a timezone database that knows
  two identifiers, a character database that knows the ASCII code points and takes every
  other code point for an uncased character that is not whitespace, a clock reading, a
  version-4 UUID, and the rows and the request of the repository's tests
  (tests/test\_bookings.py).
\<close>

definition ist :: tzinfo where
  "ist = \<lparr>offset_at_utc = (\<lambda>u. 19800000000), offset_at_wall = (\<lambda>w. 19800000000)\<rparr>"

definition utc :: tzinfo where
  "utc = \<lparr>offset_at_utc = (\<lambda>u. 0), offset_at_wall = (\<lambda>w. 0)\<rparr>"

definition example_tzdb :: tzdb where
  "example_tzdb n =
     (if n = ''Asia/Kolkata'' then Some ist else if n = ''UTC'' then Some utc else None)"

definition ascii_ucd :: ucd where
  "ascii_ucd =
     \<lparr>isspace = ascii_space, iscased = ascii_cased, totitle = ascii_totitle,
      lower_at = (\<lambda>s i. ascii_tolower (s ! i))\<rparr>"

definition example_env :: env where
  "example_env =
     \<lparr>tzdb_of = example_tzdb, tz_manager = \<lparr>default_tz = ist\<rparr>,
      now_utc = 1700000000000000, system_tz = utc, char_db = ascii_ucd,
      uuid4 = 0x3f2a9c1e7b4d4e8a9c3f5d6e7f8091a2,
      commit_fault = None, refresh_fault = None\<rparr>"

definition tomorrow :: datetime where
  "tomorrow = \<lparr>wall = 1700106200000000, utcoffset = Some 19800000000\<rparr>"

definition yesterday :: datetime where
  "yesterday = \<lparr>wall = 1699933400000000, utcoffset = Some 19800000000\<rparr>"

definition test_yoga :: FitnessClass where
  "test_yoga =
     \<lparr>fc_id = 1, name = ''Test Yoga'', description = Some ''Test yoga class'',
      instructor = ''Test Instructor'', class_datetime = tomorrow,
      duration_minutes = 60, max_slots = 10, available_slots = 10, is_active = True\<rparr>"

definition full_class :: FitnessClass where
  "full_class =
     \<lparr>fc_id = 1, name = ''Full Class'', description = None,
      instructor = ''Test Instructor'', class_datetime = tomorrow,
      duration_minutes = 60, max_slots = 1, available_slots = 0, is_active = True\<rparr>"

definition john :: BookingCreate where
  "john =
     \<lparr>bc_class_id = 1, bc_client_name = codes ''John Doe'',
      bc_client_email = ''john.doe@example.com'', bc_notes = Some ''First time booking''\<rparr>"

definition johns_booking :: Booking where
  "johns_booking =
     \<lparr>b_id = 1, class_id = 1, client_name = codes ''John Doe'',
      client_email = ''john.doe@example.com'', booking_status = ''confirmed'',
      booking_reference = ''FB3F2A9C1E'', b_notes = Some ''First time booking''\<rparr>"

definition janes_booking :: Booking where
  "janes_booking =
     \<lparr>b_id = 1, class_id = 1, client_name = codes ''Jane Doe'',
      client_email = ''jane.doe@example.com'', booking_status = ''confirmed'',
      booking_reference = ''FB3F2A9C1E'', b_notes = None\<rparr>"

definition locked_env :: env where
  "locked_env =
     example_env\<lparr>commit_fault := Some ''(sqlite3.OperationalError) database is locked''\<rparr>"

definition last_slot :: FitnessClass where
  "last_slot = test_yoga\<lparr>max_slots := 1, available_slots := 1\<rparr>"



definition tomorrow_naive :: datetime where
  "tomorrow_naive = \<lparr>wall = 1700106200000000, utcoffset = None\<rparr>"

definition tomorrow_utc :: datetime where
  "tomorrow_utc = \<lparr>wall = 1700086400000000, utcoffset = Some 0\<rparr>"

section \<open>How create\_booking answers\<close>

lemma get_class_by_id_Inl:
  "get_class_by_id s cid = Inl x \<Longrightarrow>
   x = OverflowError ''Python int too large to convert to SQLite INTEGER'' \<or>
   x = ClassNotFoundException
         (''Class with ID '' @ str_int cid @ '' not found or inactive'')
         [(''class_id'', DInt cid)]"
  by (auto simp: get_class_by_id_def split: option.splits if_splits)

lemma dt_less_Inl: "dt_less a b = Inl x \<Longrightarrow> \<not> is_domain_exception x"
  by (auto simp: dt_less_def split: option.splits)

lemma db_commit_Inl: "db_commit e s = Inl x \<Longrightarrow> \<not> is_domain_exception x"
  by (auto simp: db_commit_def split: option.splits if_splits)

lemma db_commit_Inr: "db_commit e s = Inr s' \<Longrightarrow> s' = s\<lparr>store := work s\<rparr>"
  by (auto simp: db_commit_def split: option.splits if_splits)

lemma reraised_other:
  "\<not> is_domain_exception x \<Longrightarrow>
   reraised x = InvalidBookingDataException (''Failed to create booking: '' @ exn_str x) []"
  by (simp add: reraised_def)

lemma create_booking_not_found:
  "get_class_by_id s (bc_class_id bd) = Inl x \<Longrightarrow>
   create_booking e bd s = (Inl (reraised x), db_rollback s)"
  by (simp add: create_booking_def create_booking_try_def)

lemma create_booking_incomparable:
  "get_class_by_id s (bc_class_id bd) = Inr c \<Longrightarrow> is_past e c = Inl x \<Longrightarrow>
   create_booking e bd s =
     (Inl (InvalidBookingDataException (''Failed to create booking: '' @ exn_str x) []),
      db_rollback s)"
  using dt_less_Inl [of "class_datetime c" "get_current_time e" x]
  by (simp add: create_booking_def create_booking_try_def is_past_def reraised_def)

lemma create_booking_past:
  "get_class_by_id s (bc_class_id bd) = Inr c \<Longrightarrow> is_past e c = Inr True \<Longrightarrow>
   create_booking e bd s =
     (Inl (InvalidBookingDataException ''Cannot book a class that has already occurred''
             [(''class_datetime'', DDatetime (class_datetime c))]),
      db_rollback s)"
  by (simp add: create_booking_def create_booking_try_def reraised_def)

lemma create_booking_no_slots:
  "get_class_by_id s (bc_class_id bd) = Inr c \<Longrightarrow> is_past e c = Inr False \<Longrightarrow>
   available_slots c \<le> 0 \<Longrightarrow>
   create_booking e bd s =
     (Inl (NoSlotsAvailableException
             (''No available slots for class '' @ [CHR 0x27] @ name c @ [CHR 0x27])
             [(''class_id'', DInt (bc_class_id bd)),
              (''available_slots'', DInt (available_slots c))]),
      db_rollback s)"
  by (simp add: create_booking_def create_booking_try_def reraised_def)

lemma create_booking_duplicate:
  "get_class_by_id s (bc_class_id bd) = Inr c \<Longrightarrow> is_past e c = Inr False \<Longrightarrow>
   0 < available_slots c \<Longrightarrow> existing_booking s bd = Some b \<Longrightarrow>
   create_booking e bd s =
     (Inl (DuplicateBookingException
             (''Client '' @ bc_client_email bd @ '' already has a booking for this class'')
             [(''existing_booking_id'', DInt (b_id b))]),
      db_rollback s)"
  by (simp add: create_booking_def create_booking_try_def reraised_def)

lemma store_pending: "store (pending e bd c s) = store s"
  by (simp add: pending_def db_add_def mutate_class_def set_classes_def)

lemma rollback_pending: "db_rollback (pending e bd c s) = db_rollback s"
  by (simp add: pending_def db_add_def mutate_class_def set_classes_def db_rollback_def)

lemma rollback_committed: "db_rollback (s\<lparr>store := work s\<rparr>) = s\<lparr>store := work s\<rparr>"
  by (simp add: db_rollback_def)

lemma create_booking_write_failed:
  "get_class_by_id s (bc_class_id bd) = Inr c \<Longrightarrow> is_past e c = Inr False \<Longrightarrow>
   0 < available_slots c \<Longrightarrow> existing_booking s bd = None \<Longrightarrow>
   db_commit e (pending e bd c s) = Inl x \<Longrightarrow>
   create_booking e bd s =
     (Inl (InvalidBookingDataException (''Failed to create booking: '' @ exn_str x) []),
      db_rollback s)"
  using db_commit_Inl [of e "pending e bd c s" x] rollback_pending [of e bd c s]
  by (simp add: create_booking_def create_booking_try_def pending_def Let_def reraised_def)

lemma create_booking_written:
  "get_class_by_id s (bc_class_id bd) = Inr c \<Longrightarrow> is_past e c = Inr False \<Longrightarrow>
   0 < available_slots c \<Longrightarrow> existing_booking s bd = None \<Longrightarrow>
   db_commit e (pending e bd c s) = Inr s' \<Longrightarrow> refresh_fault e = None \<Longrightarrow>
   create_booking e bd s = (Inr (new_booking e s bd), s')"
  by (simp add: create_booking_def create_booking_try_def pending_def Let_def db_refresh_def)

text \<open>A refresh that fails raises after the commit: the rollback finds nothing to undo.\<close>

lemma create_booking_unrefreshed:
  assumes "get_class_by_id s (bc_class_id bd) = Inr c" and "is_past e c = Inr False"
    and "0 < available_slots c" and "existing_booking s bd = None"
    and "db_commit e (pending e bd c s) = Inr s'" and "refresh_fault e = Some m"
  shows "create_booking e bd s =
     (Inl (InvalidBookingDataException (''Failed to create booking: '' @ m) []), s')"
proof -
  from db_commit_Inr [OF assms(5)] have "db_rollback s' = s'"
    by (simp add: rollback_committed)
  with assms show ?thesis
    by (simp add: create_booking_def create_booking_try_def pending_def Let_def db_refresh_def
        reraised_def)
qed

text \<open>Evaluating the example data.\<close>

lemma example_now: "get_current_time example_env
    = \<lparr>wall = 1700019800000000, utcoffset = Some 19800000000\<rparr>"
  by (simp add: get_current_time_def example_env_def fromutc_def ist_def)

lemma example_reference: "generate_booking_reference example_env = ''FB3F2A9C1E''"
  by (simp add: generate_booking_reference_def example_env_def uuid_hex_def hex_digit_def
      upper_def upper_char_def ascii_lowercase_def ascii_uppercase_def upt_rec drop_bit_eq_div)

lemma is_past_aware:
  "utcoffset (class_datetime c) = Some off \<Longrightarrow>
   is_past e c = Inr (wall (class_datetime c) - off < now_utc e)"
  by (simp add: is_past_def dt_less_def get_current_time_def fromutc_def)

lemma find_Some_member: "find P xs = Some x \<Longrightarrow> x \<in> set xs \<and> P x"
  by (induction xs) (auto split: if_splits)

lemma get_class_by_id_none:
  "- (2 ^ 63) \<le> cid \<Longrightarrow> cid < 2 ^ 63 \<Longrightarrow>
   (\<exists>x. get_class_by_id s cid = Inl x)
     = (\<not> (\<exists>c \<in> set (classes (work s)). fc_id c = cid \<and> is_active c))"
  by (auto simp: get_class_by_id_def find_None_iff dest: find_Some_member split: option.splits)

text \<open>
  The ways a call ends: it fails with nothing committed; or the four checks pass and the
  commit succeeds, and then the booking is returned, or the refresh fails and the call
  fails with the booking committed.
\<close>

lemma create_booking_cases:
  obtains (failed) x where "create_booking e bd s = (Inl x, db_rollback s)"
  | (written) c where "get_class_by_id s (bc_class_id bd) = Inr c"
      and "is_past e c = Inr False" and "0 < available_slots c"
      and "existing_booking s bd = None"
      and "create_booking e bd s =
             (Inr (new_booking e s bd), (pending e bd c s)\<lparr>store := work (pending e bd c s)\<rparr>)"
  | (unrefreshed) c m where "get_class_by_id s (bc_class_id bd) = Inr c"
      and "is_past e c = Inr False" and "0 < available_slots c"
      and "existing_booking s bd = None"
      and "create_booking e bd s =
             (Inl (InvalidBookingDataException (''Failed to create booking: '' @ m) []),
              (pending e bd c s)\<lparr>store := work (pending e bd c s)\<rparr>)"
proof (cases "get_class_by_id s (bc_class_id bd)")
  case (Inl x)
  from create_booking_not_found [OF this] show ?thesis by (rule failed)
next
  case found: (Inr c)
  show ?thesis
  proof (cases "is_past e c")
    case (Inl x)
    from create_booking_incomparable [OF found this] show ?thesis by (rule failed)
  next
    case (Inr p)
    show ?thesis
    proof (cases p)
      case True
      with Inr have "is_past e c = Inr True" by simp
      from create_booking_past [OF found this] show ?thesis by (rule failed)
    next
      case False
      with Inr have np: "is_past e c = Inr False" by simp
      show ?thesis
      proof (cases "available_slots c \<le> 0")
        case True
        from create_booking_no_slots [OF found np this] show ?thesis by (rule failed)
      next
        case False
        then have slots: "0 < available_slots c" by simp
        show ?thesis
        proof (cases "existing_booking s bd")
          case (Some b)
          from create_booking_duplicate [OF found np slots this] show ?thesis by (rule failed)
        next
          case None
          show ?thesis
          proof (cases "db_commit e (pending e bd c s)")
            case (Inl x)
            from create_booking_write_failed [OF found np slots None this]
            show ?thesis by (rule failed)
          next
            case committed: (Inr s')
            note s' = db_commit_Inr [OF committed]
            show ?thesis
            proof (cases "refresh_fault e")
              case no_fault: None
              from create_booking_written [OF found np slots None committed no_fault] s'
              have "create_booking e bd s =
                (Inr (new_booking e s bd),
                 (pending e bd c s)\<lparr>store := work (pending e bd c s)\<rparr>)"
                by simp
              with found np slots None show ?thesis by (rule written)
            next
              case (Some m)
              from create_booking_unrefreshed [OF found np slots None committed Some] s'
              have "create_booking e bd s =
                (Inl (InvalidBookingDataException (''Failed to create booking: '' @ m) []),
                 (pending e bd c s)\<lparr>store := work (pending e bd c s)\<rparr>)"
                by simp
              with found np slots None show ?thesis by (rule unrefreshed)
            qed
          qed
        qed
      qed
    qed
  qed
qed

lemma full_class_fails:
  assumes "get_class_by_id s (bc_class_id bd) = Inr c" and "available_slots c \<le> 0"
  shows "\<exists>x. fst (create_booking e bd s) = Inl x"
  using assms by (cases e bd s rule: create_booking_cases) auto

section \<open>The order of the checks\<close>

text \<open>
  \<open>create_booking\<close> checks existence, then timing, then capacity, then duplicates, and
  reports the error of the first check that fails, whatever the later checks would have
  found: no active class with the id gives \<open>ClassNotFoundException\<close> (an id the key
  column cannot hold makes the query raise, which is reported as
  \<open>InvalidBookingDataException\<close>); a class found
  whose start cannot be compared with, or lies before, the current time gives
  \<open>InvalidBookingDataException\<close>; a class found, not past, with no slot left gives
  \<open>NoSlotsAvailableException\<close>; and with a slot left, a confirmed booking of the same
  class and email gives \<open>DuplicateBookingException\<close> with that booking's id.
\<close>

lemma checks_in_order:
  "(get_class_by_id s (bc_class_id bd) = Inl x \<longrightarrow>
      fst (create_booking e bd s) = Inl (reraised x) \<and>
      (- (2 ^ 63) \<le> bc_class_id bd \<and> bc_class_id bd < 2 ^ 63 \<longrightarrow>
         reraised x = ClassNotFoundException
            (''Class with ID '' @ str_int (bc_class_id bd) @ '' not found or inactive'')
            [(''class_id'', DInt (bc_class_id bd))])) \<and>
   (get_class_by_id s (bc_class_id bd) = Inr c \<and> is_past e c = Inl x \<longrightarrow>
      fst (create_booking e bd s) =
        Inl (InvalidBookingDataException (''Failed to create booking: '' @ exn_str x) [])) \<and>
   (get_class_by_id s (bc_class_id bd) = Inr c \<and> is_past e c = Inr True \<longrightarrow>
      fst (create_booking e bd s) =
        Inl (InvalidBookingDataException ''Cannot book a class that has already occurred''
               [(''class_datetime'', DDatetime (class_datetime c))])) \<and>
   (get_class_by_id s (bc_class_id bd) = Inr c \<and> is_past e c = Inr False \<and>
    available_slots c \<le> 0 \<longrightarrow>
      fst (create_booking e bd s) =
        Inl (NoSlotsAvailableException
               (''No available slots for class '' @ [CHR 0x27] @ name c @ [CHR 0x27])
               [(''class_id'', DInt (bc_class_id bd)),
                (''available_slots'', DInt (available_slots c))])) \<and>
   (get_class_by_id s (bc_class_id bd) = Inr c \<and> is_past e c = Inr False \<and>
    0 < available_slots c \<and> existing_booking s bd = Some b \<longrightarrow>
      fst (create_booking e bd s) =
        Inl (DuplicateBookingException
               (''Client '' @ bc_client_email bd @ '' already has a booking for this class'')
               [(''existing_booking_id'', DInt (b_id b))]))"
proof (intro conjI impI)
  assume a: "get_class_by_id s (bc_class_id bd) = Inl x"
  then show "fst (create_booking e bd s) = Inl (reraised x)"
    by (simp add: create_booking_not_found)
  assume "- (2 ^ 63) \<le> bc_class_id bd \<and> bc_class_id bd < 2 ^ 63"
  with a show "reraised x = ClassNotFoundException
            (''Class with ID '' @ str_int (bc_class_id bd) @ '' not found or inactive'')
            [(''class_id'', DInt (bc_class_id bd))]"
    by (auto simp: get_class_by_id_def reraised_def split: option.splits)
next
  assume "get_class_by_id s (bc_class_id bd) = Inr c \<and> is_past e c = Inl x"
  then show "fst (create_booking e bd s) =
        Inl (InvalidBookingDataException (''Failed to create booking: '' @ exn_str x) [])"
    by (simp add: create_booking_incomparable)
next
  assume "get_class_by_id s (bc_class_id bd) = Inr c \<and> is_past e c = Inr True"
  then show "fst (create_booking e bd s) =
        Inl (InvalidBookingDataException ''Cannot book a class that has already occurred''
               [(''class_datetime'', DDatetime (class_datetime c))])"
    by (simp add: create_booking_past)
next
  assume "get_class_by_id s (bc_class_id bd) = Inr c \<and> is_past e c = Inr False \<and>
    available_slots c \<le> 0"
  then show "fst (create_booking e bd s) =
        Inl (NoSlotsAvailableException
               (''No available slots for class '' @ [CHR 0x27] @ name c @ [CHR 0x27])
               [(''class_id'', DInt (bc_class_id bd)),
                (''available_slots'', DInt (available_slots c))])"
    by (simp add: create_booking_no_slots)
next
  assume "get_class_by_id s (bc_class_id bd) = Inr c \<and> is_past e c = Inr False \<and>
    0 < available_slots c \<and> existing_booking s bd = Some b"
  then show "fst (create_booking e bd s) =
        Inl (DuplicateBookingException
               (''Client '' @ bc_client_email bd @ '' already has a booking for this class'')
               [(''existing_booking_id'', DInt (b_id b))])"
    by (simp add: create_booking_duplicate)
qed

text \<open>The five branches at the example data.\<close>

lemma checks_in_order_examples:
  "fst (create_booking example_env john (open_session \<lparr>classes = [], bookings = []\<rparr>))
     = Inl (ClassNotFoundException ''Class with ID 1 not found or inactive''
              [(''class_id'', DInt 1)]) \<and>
   fst (create_booking example_env john
          (open_session
             \<lparr>classes = [test_yoga\<lparr>class_datetime := tomorrow\<lparr>utcoffset := None\<rparr>\<rparr>],
              bookings = []\<rparr>))
     = Inl (InvalidBookingDataException
              ''Failed to create booking: can't compare offset-naive and offset-aware datetimes''
              []) \<and>
   fst (create_booking example_env john
          (open_session \<lparr>classes = [test_yoga\<lparr>class_datetime := yesterday\<rparr>], bookings = []\<rparr>))
     = Inl (InvalidBookingDataException ''Cannot book a class that has already occurred''
              [(''class_datetime'', DDatetime yesterday)]) \<and>
   fst (create_booking example_env john (open_session \<lparr>classes = [full_class], bookings = []\<rparr>))
     = Inl (NoSlotsAvailableException (''No available slots for class '' @ [CHR 0x27] @ ''Full Class'' @ [CHR 0x27])
              [(''class_id'', DInt 1), (''available_slots'', DInt 0)]) \<and>
   fst (create_booking example_env john
          (open_session \<lparr>classes = [test_yoga], bookings = [johns_booking]\<rparr>))
     = Inl (DuplicateBookingException
              ''Client john.doe@example.com already has a booking for this class''
              [(''existing_booking_id'', DInt 1)])"
proof (intro conjI)
  let ?e = example_env
  let ?s0 = "open_session \<lparr>classes = [], bookings = []\<rparr>"
  let ?x = "ClassNotFoundException ''Class with ID 1 not found or inactive''
              [(''class_id'', DInt 1)]"
  have "get_class_by_id ?s0 (bc_class_id john) = Inl ?x"
    by (simp add: get_class_by_id_def open_session_def john_def str_int_def digits.simps)
  with checks_in_order [of ?s0 john ?x ?e]
  show "fst (create_booking ?e john ?s0) = Inl ?x" by (simp add: reraised_def)
next
  let ?e = example_env
  let ?c = "test_yoga\<lparr>class_datetime := tomorrow\<lparr>utcoffset := None\<rparr>\<rparr>"
  let ?s = "open_session \<lparr>classes = [?c], bookings = []\<rparr>"
  let ?x = "TypeError ''can't compare offset-naive and offset-aware datetimes''"
  have "get_class_by_id ?s (bc_class_id john) = Inr ?c \<and> is_past ?e ?c = Inl ?x"
    by (simp add: get_class_by_id_def open_session_def john_def test_yoga_def
        is_past_def dt_less_def example_now tomorrow_def)
  with checks_in_order [of ?s john ?x ?e ?c]
  show "fst (create_booking ?e john ?s)
     = Inl (InvalidBookingDataException
              ''Failed to create booking: can't compare offset-naive and offset-aware datetimes''
              [])" by simp
next
  let ?e = example_env
  let ?c = "test_yoga\<lparr>class_datetime := yesterday\<rparr>"
  let ?s = "open_session \<lparr>classes = [?c], bookings = []\<rparr>"
  have "get_class_by_id ?s (bc_class_id john) = Inr ?c \<and> is_past ?e ?c = Inr True"
    by (simp add: get_class_by_id_def open_session_def john_def test_yoga_def
        is_past_def dt_less_def example_now yesterday_def)
  with checks_in_order [of ?s john _ ?e ?c]
  show "fst (create_booking ?e john ?s)
     = Inl (InvalidBookingDataException ''Cannot book a class that has already occurred''
              [(''class_datetime'', DDatetime yesterday)])" by simp
next
  let ?e = example_env
  let ?s = "open_session \<lparr>classes = [full_class], bookings = []\<rparr>"
  have "get_class_by_id ?s (bc_class_id john) = Inr full_class \<and>
        is_past ?e full_class = Inr False \<and> available_slots full_class \<le> 0"
    by (simp add: get_class_by_id_def open_session_def john_def full_class_def
        is_past_def dt_less_def example_now tomorrow_def)
  with checks_in_order [of ?s john _ ?e full_class]
  show "fst (create_booking ?e john ?s)
     = Inl (NoSlotsAvailableException (''No available slots for class '' @ [CHR 0x27] @ ''Full Class'' @ [CHR 0x27])
              [(''class_id'', DInt 1), (''available_slots'', DInt 0)])"
    by (simp add: full_class_def john_def)
next
  let ?e = example_env
  let ?s = "open_session \<lparr>classes = [test_yoga], bookings = [johns_booking]\<rparr>"
  have "get_class_by_id ?s (bc_class_id john) = Inr test_yoga \<and>
        is_past ?e test_yoga = Inr False \<and> 0 < available_slots test_yoga \<and>
        existing_booking ?s john = Some johns_booking"
    by (simp add: get_class_by_id_def open_session_def john_def test_yoga_def
        is_past_def dt_less_def example_now tomorrow_def existing_booking_def johns_booking_def)
  with checks_in_order [of ?s john _ ?e test_yoga johns_booking]
  show "fst (create_booking ?e john ?s)
     = Inl (DuplicateBookingException
              ''Client john.doe@example.com already has a booking for this class''
              [(''existing_booking_id'', DInt 1)])"
    by (simp add: john_def johns_booking_def)
qed

text \<open>
  Claim C4. The four checks run in the order existence, timing, capacity, duplicate,
  the first failing check deciding the error, where the timing check passes when the
  class starts at or after the current time in the reference timezone. The order is as
  claimed (\<open>checks_in_order\<close>), and for a stored timestamp that carries an offset the
  timing check is as claimed (\<open>is_past_aware\<close>). For a stored timestamp without offset,
  which \<open>convert_timezone\<close> reads in the reference timezone, \<open>is_past\<close> raises: a
  class that starts tomorrow is refused with \<open>InvalidBookingDataException\<close>, where the
  claim has \<open>NoSlotsAvailable\<close> for the class without a slot and no error for the
  class with ten.
\<close>

theorem C4_naive_timestamp_refused:
  "get_class_by_id
     (open_session \<lparr>classes = [full_class\<lparr>class_datetime := tomorrow_naive\<rparr>], bookings = []\<rparr>)
     (bc_class_id john) = Inr (full_class\<lparr>class_datetime := tomorrow_naive\<rparr>) \<and>
   instant (tz_manager example_env) (get_current_time example_env)
     \<le> instant (tz_manager example_env) tomorrow_naive \<and>
   available_slots (full_class\<lparr>class_datetime := tomorrow_naive\<rparr>) = 0 \<and>
   fst (create_booking example_env john
          (open_session
             \<lparr>classes = [full_class\<lparr>class_datetime := tomorrow_naive\<rparr>], bookings = []\<rparr>))
     = Inl (InvalidBookingDataException
              ''Failed to create booking: can't compare offset-naive and offset-aware datetimes''
              []) \<and>
   available_slots (test_yoga\<lparr>class_datetime := tomorrow_naive\<rparr>) = 10 \<and>
   fst (create_booking example_env john
          (open_session
             \<lparr>classes = [test_yoga\<lparr>class_datetime := tomorrow_naive\<rparr>], bookings = []\<rparr>))
     = Inl (InvalidBookingDataException
              ''Failed to create booking: can't compare offset-naive and offset-aware datetimes''
              [])"
proof -
  let ?x = "TypeError ''can't compare offset-naive and offset-aware datetimes''"
  have later: "instant (tz_manager example_env) (get_current_time example_env)
      \<le> instant (tz_manager example_env) tomorrow_naive"
    by (simp add: example_now instant_def tomorrow_naive_def, simp add: example_env_def ist_def)
  have raises: "is_past example_env (c\<lparr>class_datetime := tomorrow_naive\<rparr>) = Inl ?x" for c
    by (simp add: is_past_def dt_less_def example_now tomorrow_naive_def)
  have full: "get_class_by_id
      (open_session \<lparr>classes = [full_class\<lparr>class_datetime := tomorrow_naive\<rparr>], bookings = []\<rparr>)
      (bc_class_id john) = Inr (full_class\<lparr>class_datetime := tomorrow_naive\<rparr>)"
    by (simp add: get_class_by_id_def open_session_def john_def full_class_def)
  have yoga: "get_class_by_id
      (open_session \<lparr>classes = [test_yoga\<lparr>class_datetime := tomorrow_naive\<rparr>], bookings = []\<rparr>)
      (bc_class_id john) = Inr (test_yoga\<lparr>class_datetime := tomorrow_naive\<rparr>)"
    by (simp add: get_class_by_id_def open_session_def john_def test_yoga_def)
  from create_booking_incomparable [OF full raises] create_booking_incomparable [OF yoga raises]
    full later
  show ?thesis by (simp add: full_class_def test_yoga_def)
qed

section \<open>A class without a free slot\<close>

text \<open>
  Claim C1, as stated: whenever the target class has no slot left, \<open>create_booking\<close>
  fails with \<open>NoSlotsAvailable\<close>. It does not hold: the timing check comes first, so a
  class that has already started and has no slot left is refused with
  \<open>InvalidBookingDataException\<close>.
\<close>

theorem C1_counterexample:
  "get_class_by_id
     (open_session \<lparr>classes = [full_class\<lparr>class_datetime := yesterday\<rparr>], bookings = []\<rparr>)
     (bc_class_id john) = Inr (full_class\<lparr>class_datetime := yesterday\<rparr>) \<and>
   available_slots (full_class\<lparr>class_datetime := yesterday\<rparr>) = 0 \<and>
   fst (create_booking example_env john
          (open_session \<lparr>classes = [full_class\<lparr>class_datetime := yesterday\<rparr>], bookings = []\<rparr>))
     = Inl (InvalidBookingDataException ''Cannot book a class that has already occurred''
              [(''class_datetime'', DDatetime yesterday)])"
proof -
  let ?c = "full_class\<lparr>class_datetime := yesterday\<rparr>"
  let ?s = "open_session \<lparr>classes = [?c], bookings = []\<rparr>"
  have g: "get_class_by_id ?s (bc_class_id john) = Inr ?c"
    by (simp add: get_class_by_id_def open_session_def john_def full_class_def)
  have p: "is_past example_env ?c = Inr True"
    by (simp add: is_past_def dt_less_def example_now yesterday_def)
  from create_booking_past [OF g p] g show ?thesis by (simp add: full_class_def)
qed

text \<open>
  Claim C1, amended. When the class found for the request (it exists and is active) has
  \<open>available_slots \<le> 0\<close>, \<open>create_booking\<close> fails, and it fails with
  \<open>NoSlotsAvailableException\<close> when the timing check passes. A request that fails the
  existence check, the timing check, the capacity check or the duplicate check leaves
  the committed rows as they were and the session with nothing uncommitted: no booking
  row is created and no \<open>available_slots\<close> changes.
\<close>

theorem C1_full_class_refused_state_kept:
  "(get_class_by_id s (bc_class_id bd) = Inr c \<and> available_slots c \<le> 0 \<longrightarrow>
      (\<exists>x. fst (create_booking e bd s) = Inl x) \<and>
      (is_past e c = Inr False \<longrightarrow>
         fst (create_booking e bd s) =
           Inl (NoSlotsAvailableException
                  (''No available slots for class '' @ [CHR 0x27] @ name c @ [CHR 0x27])
                  [(''class_id'', DInt (bc_class_id bd)),
                   (''available_slots'', DInt (available_slots c))]))) \<and>
   (get_class_by_id s (bc_class_id bd) = Inl x \<longrightarrow>
      store (snd (create_booking e bd s)) = store s \<and>
      work (snd (create_booking e bd s)) = store s) \<and>
   (get_class_by_id s (bc_class_id bd) = Inr c \<and> is_past e c = Inr True \<longrightarrow>
      store (snd (create_booking e bd s)) = store s \<and>
      work (snd (create_booking e bd s)) = store s) \<and>
   (get_class_by_id s (bc_class_id bd) = Inr c \<and> is_past e c = Inr False \<and>
    available_slots c \<le> 0 \<longrightarrow>
      store (snd (create_booking e bd s)) = store s \<and>
      work (snd (create_booking e bd s)) = store s) \<and>
   (get_class_by_id s (bc_class_id bd) = Inr c \<and> is_past e c = Inr False \<and>
    0 < available_slots c \<and> existing_booking s bd = Some b \<longrightarrow>
      store (snd (create_booking e bd s)) = store s \<and>
      work (snd (create_booking e bd s)) = store s)"
  using full_class_fails [of s bd c e] create_booking_no_slots [of s bd c e]
    create_booking_not_found [of s bd x e] create_booking_past [of s bd c e]
    create_booking_duplicate [of s bd c e b]
  by (auto simp: db_rollback_def)

lemma example_checks:
  "get_class_by_id (open_session \<lparr>classes = [], bookings = []\<rparr>) (bc_class_id john)
     = Inl (ClassNotFoundException ''Class with ID 1 not found or inactive''
              [(''class_id'', DInt 1)])"
  "get_class_by_id (open_session \<lparr>classes = [test_yoga\<lparr>class_datetime := yesterday\<rparr>],
                                  bookings = []\<rparr>) (bc_class_id john)
     = Inr (test_yoga\<lparr>class_datetime := yesterday\<rparr>)"
  "is_past example_env (test_yoga\<lparr>class_datetime := yesterday\<rparr>) = Inr True"
  "get_class_by_id (open_session \<lparr>classes = [full_class], bookings = []\<rparr>) (bc_class_id john)
     = Inr full_class"
  "is_past example_env full_class = Inr False"
  "get_class_by_id (open_session \<lparr>classes = [test_yoga], bookings = bs\<rparr>) (bc_class_id john)
     = Inr test_yoga"
  "is_past example_env test_yoga = Inr False"
  "existing_booking (open_session \<lparr>classes = [test_yoga], bookings = [johns_booking]\<rparr>) john
     = Some johns_booking"
  by (simp_all add: get_class_by_id_def open_session_def john_def test_yoga_def full_class_def
      is_past_def dt_less_def example_now yesterday_def tomorrow_def existing_booking_def
      johns_booking_def str_int_def digits.simps)

theorem C1_full_class_refused_state_kept_witness:
  "fst (create_booking example_env john (open_session \<lparr>classes = [full_class], bookings = []\<rparr>))
     = Inl (NoSlotsAvailableException
              (''No available slots for class '' @ [CHR 0x27] @ ''Full Class'' @ [CHR 0x27])
              [(''class_id'', DInt 1), (''available_slots'', DInt 0)]) \<and>
   store (snd (create_booking example_env john
            (open_session \<lparr>classes = [full_class], bookings = []\<rparr>)))
     = \<lparr>classes = [full_class], bookings = []\<rparr> \<and>
   work (snd (create_booking example_env john
            (open_session \<lparr>classes = [full_class], bookings = []\<rparr>)))
     = \<lparr>classes = [full_class], bookings = []\<rparr> \<and>
   store (snd (create_booking example_env john (open_session \<lparr>classes = [], bookings = []\<rparr>)))
     = \<lparr>classes = [], bookings = []\<rparr> \<and>
   work (snd (create_booking example_env john (open_session \<lparr>classes = [], bookings = []\<rparr>)))
     = \<lparr>classes = [], bookings = []\<rparr> \<and>
   store (snd (create_booking example_env john
            (open_session \<lparr>classes = [test_yoga\<lparr>class_datetime := yesterday\<rparr>],
                           bookings = []\<rparr>)))
     = \<lparr>classes = [test_yoga\<lparr>class_datetime := yesterday\<rparr>], bookings = []\<rparr> \<and>
   work (snd (create_booking example_env john
            (open_session \<lparr>classes = [test_yoga\<lparr>class_datetime := yesterday\<rparr>],
                           bookings = []\<rparr>)))
     = \<lparr>classes = [test_yoga\<lparr>class_datetime := yesterday\<rparr>], bookings = []\<rparr> \<and>
   store (snd (create_booking example_env john
            (open_session \<lparr>classes = [test_yoga], bookings = [johns_booking]\<rparr>)))
     = \<lparr>classes = [test_yoga], bookings = [johns_booking]\<rparr> \<and>
   work (snd (create_booking example_env john
            (open_session \<lparr>classes = [test_yoga], bookings = [johns_booking]\<rparr>)))
     = \<lparr>classes = [test_yoga], bookings = [johns_booking]\<rparr>"
proof -
  define s_full where "s_full = open_session \<lparr>classes = [full_class], bookings = []\<rparr>"
  define s_none where "s_none = open_session \<lparr>classes = [], bookings = []\<rparr>"
  define s_past where
    "s_past = open_session \<lparr>classes = [test_yoga\<lparr>class_datetime := yesterday\<rparr>], bookings = []\<rparr>"
  define s_dup where
    "s_dup = open_session \<lparr>classes = [test_yoga], bookings = [johns_booking]\<rparr>"
  have full: "get_class_by_id s_full (bc_class_id john) = Inr full_class \<and>
      available_slots full_class \<le> 0" "is_past example_env full_class = Inr False"
    using example_checks(4,5) by (simp_all add: s_full_def full_class_def)
  have none: "get_class_by_id s_none (bc_class_id john)
      = Inl (ClassNotFoundException ''Class with ID 1 not found or inactive''
               [(''class_id'', DInt 1)])"
    using example_checks(1) by (simp add: s_none_def)
  have past: "get_class_by_id s_past (bc_class_id john)
                = Inr (test_yoga\<lparr>class_datetime := yesterday\<rparr>) \<and>
      is_past example_env (test_yoga\<lparr>class_datetime := yesterday\<rparr>) = Inr True"
    using example_checks(2,3) by (simp add: s_past_def)
  have dup: "get_class_by_id s_dup (bc_class_id john) = Inr test_yoga \<and>
      is_past example_env test_yoga = Inr False \<and> 0 < available_slots test_yoga \<and>
      existing_booking s_dup john = Some johns_booking"
    using example_checks(6) [of "[johns_booking]"] example_checks(7,8)
    by (simp add: s_dup_def test_yoga_def)
  from C1_full_class_refused_state_kept [of s_full john full_class example_env] full
  have 1: "fst (create_booking example_env john s_full)
      = Inl (NoSlotsAvailableException
              (''No available slots for class '' @ [CHR 0x27] @ name full_class @ [CHR 0x27])
              [(''class_id'', DInt (bc_class_id john)),
               (''available_slots'', DInt (available_slots full_class))])"
    and 2: "store (snd (create_booking example_env john s_full)) = store s_full \<and>
      work (snd (create_booking example_env john s_full)) = store s_full"
    by blast+
  from C1_full_class_refused_state_kept [of s_none john _ example_env] none
  have 3: "store (snd (create_booking example_env john s_none)) = store s_none \<and>
      work (snd (create_booking example_env john s_none)) = store s_none"
    by blast
  from C1_full_class_refused_state_kept
    [of s_past john "test_yoga\<lparr>class_datetime := yesterday\<rparr>" example_env] past
  have 4: "store (snd (create_booking example_env john s_past)) = store s_past \<and>
      work (snd (create_booking example_env john s_past)) = store s_past"
    by blast
  from C1_full_class_refused_state_kept
    [of s_dup john test_yoga example_env _ johns_booking] dup
  have 5: "store (snd (create_booking example_env john s_dup)) = store s_dup \<and>
      work (snd (create_booking example_env john s_dup)) = store s_dup"
    by blast
  have stores: "store s_full = \<lparr>classes = [full_class], bookings = []\<rparr>"
    "store s_none = \<lparr>classes = [], bookings = []\<rparr>"
    "store s_past = \<lparr>classes = [test_yoga\<lparr>class_datetime := yesterday\<rparr>], bookings = []\<rparr>"
    "store s_dup = \<lparr>classes = [test_yoga], bookings = [johns_booking]\<rparr>"
    by (simp_all add: s_full_def s_none_def s_past_def s_dup_def open_session_def)
  have names: "name full_class = ''Full Class''" "bc_class_id john = 1"
    "available_slots full_class = 0"
    by (simp_all add: full_class_def john_def)
  from 1 2 3 4 5 show ?thesis
    unfolding stores names
    unfolding s_full_def s_none_def s_past_def s_dup_def by simp
qed

section \<open>The row that changes and the reference that is drawn\<close>

lemma update_first_split:
  "find P xs = Some c \<Longrightarrow>
   \<exists>pre post. xs = pre @ c # post \<and> update_first P f xs = pre @ f c # post"
proof (induction xs)
  case Nil
  then show ?case by simp
next
  case (Cons x xs)
  show ?case
  proof (cases "P x")
    case True
    with Cons.prems have "x = c" by simp
    with True show ?thesis by (intro exI[of _ "[]"] exI[of _ xs]) simp
  next
    case False
    with Cons.prems have "find P xs = Some c" by simp
    from Cons.IH[OF this] obtain pre post where
      "xs = pre @ c # post" "update_first P f xs = pre @ f c # post" by blast
    with False show ?thesis by (intro exI[of _ "x # pre"] exI[of _ post]) simp
  qed
qed

lemma find_the_row: "find P xs = Some c \<Longrightarrow> find (\<lambda>r. r = c) xs = Some c"
  by (induction xs) (auto split: if_splits)

lemma get_class_by_id_row:
  assumes "get_class_by_id s cid = Inr c"
  shows "\<exists>pre post. classes (work s) = pre @ c # post \<and>
           classes (work (mutate_class c f s)) = pre @ f c # post"
proof -
  from assms have "find (\<lambda>r. fc_id r = cid \<and> is_active r) (classes (work s)) = Some c"
    by (auto simp: get_class_by_id_def split: option.splits if_splits)
  then have "find (\<lambda>r. r = c) (classes (work s)) = Some c" by (rule find_the_row)
  from update_first_split [OF this, of f] show ?thesis
    by (simp add: mutate_class_def set_classes_def)
qed

lemma upper_hex_digits:
  "list_all (\<lambda>k. upper_char (''0123456789abcdef'' ! k) \<in> set ''0123456789ABCDEF'') [0..<16]"
  by (simp add: upt_rec upper_char_def ascii_lowercase_def ascii_uppercase_def)

lemma upper_hex_digit: "upper_char (hex_digit n) \<in> set ''0123456789ABCDEF''"
proof -
  have "n mod 16 \<in> set [0..<16]" by simp
  with upper_hex_digits show ?thesis
    unfolding hex_digit_def list_all_iff by blast
qed

lemma reference_format:
  "\<exists>h. generate_booking_reference e = ''FB'' @ h \<and> length h = 8 \<and>
       set h \<subseteq> set ''0123456789ABCDEF''"
proof -
  let ?h = "upper (take 8 (uuid_hex (uuid4 e)))"
  have "length ?h = 8" by (simp add: upper_def uuid_hex_def)
  moreover have "set ?h \<subseteq> set ''0123456789ABCDEF''"
    unfolding upper_def uuid_hex_def take_map set_map
    using upper_hex_digit by blast
  ultimately show ?thesis
    unfolding generate_booking_reference_def by blast
qed


lemma bookings_pending:
  "bookings (work (pending e bd c s)) = bookings (work s) @ [new_booking e s bd]"
  by (simp add: pending_def db_add_def mutate_class_def set_classes_def)

lemma classes_pending:
  "classes (work (pending e bd c s))
     = classes (work (mutate_class c (\<lambda>r. r\<lparr>available_slots := available_slots r - 1\<rparr>) s))"
  by (simp add: pending_def db_add_def)

lemma db_commit_pending:
  assumes "commit_fault e = None"
    and "distinct (map booking_reference (bookings (work s)))"
    and "generate_booking_reference e \<notin> set (map booking_reference (bookings (work s)))"
  shows "db_commit e (pending e bd c s)
           = Inr ((pending e bd c s)\<lparr>store := work (pending e bd c s)\<rparr>)"
  using assms by (simp add: db_commit_def bookings_pending new_booking_def)

lemma example_session_checks:
  "get_class_by_id (open_session \<lparr>classes = [test_yoga], bookings = bs\<rparr>) (bc_class_id john)
     = Inr test_yoga \<and>
   is_past example_env test_yoga = Inr False \<and> 0 < available_slots test_yoga"
  by (simp add: get_class_by_id_def open_session_def john_def test_yoga_def
      is_past_def dt_less_def example_now tomorrow_def)

lemma example_case_env [simp]:
  "commit_fault example_env = None" "now_utc example_env = 1700000000000000"
  "refresh_fault example_env = None"
  by (simp_all add: example_env_def)

lemma locked_now: "get_current_time locked_env = get_current_time example_env"
  by (simp add: locked_env_def get_current_time_def)

lemma locked_commit:
  "db_commit locked_env s = Inl (StoreError ''(sqlite3.OperationalError) database is locked'')"
  by (simp add: db_commit_def locked_env_def)

text \<open>
  The example request on the one class of the example, with and without a failing
  refresh: the four checks pass and the commit succeeds.
\<close>

lemma example_commit:
  assumes "fc_id c = 1" and "is_active c" and "class_datetime c = tomorrow"
    and "0 < available_slots c" and "bc_class_id bd = 1"
    and e: "e = example_env\<lparr>refresh_fault := f\<rparr>"
    and s: "s = open_session \<lparr>classes = [c], bookings = []\<rparr>"
    and b: "b = \<lparr>b_id = 1, class_id = 1, client_name = bc_client_name bd,
                  client_email = bc_client_email bd, booking_status = ''confirmed'',
                  booking_reference = ''FB3F2A9C1E'', b_notes = bc_notes bd\<rparr>"
  shows "get_class_by_id s (bc_class_id bd) = Inr c" and "is_past e c = Inr False"
    and "existing_booking s bd = None" and "new_booking e s bd = b"
    and "db_commit e (pending e bd c s)
           = Inr (open_session \<lparr>classes = [c\<lparr>available_slots := available_slots c - 1\<rparr>],
                                bookings = [b]\<rparr>)"
proof -
  define p where "p = pending e bd c s"
  have now: "get_current_time e = get_current_time example_env"
    by (simp add: e get_current_time_def)
  have ref: "generate_booking_reference e = ''FB3F2A9C1E''"
    using example_reference by (simp add: e generate_booking_reference_def)
  show found: "get_class_by_id s (bc_class_id bd) = Inr c"
    using assms(1,2,5) by (simp add: get_class_by_id_def open_session_def s)
  show np: "is_past e c = Inr False"
    using assms(3) by (simp add: is_past_def dt_less_def now example_now tomorrow_def)
  show none: "existing_booking s bd = None"
    by (simp add: existing_booking_def open_session_def s)
  have commit: "db_commit e p = Inr (p\<lparr>store := work p\<rparr>)"
    unfolding p_def by (rule db_commit_pending) (simp_all add: open_session_def s e)
  show nb: "new_booking e s bd = b"
    using assms(5)
    by (simp add: new_booking_def next_booking_id_def open_session_def ref s b)
  have w: "work p
     = \<lparr>classes = [c\<lparr>available_slots := available_slots c - 1\<rparr>], bookings = [b]\<rparr>"
    unfolding p_def pending_def nb
    by (simp add: db_add_def mutate_class_def set_classes_def open_session_def s)
  have "p\<lparr>store := work p\<rparr>
     = open_session \<lparr>classes = [c\<lparr>available_slots := available_slots c - 1\<rparr>], bookings = [b]\<rparr>"
    by (rule session.equality) (simp_all add: w open_session_def)
  with commit show "db_commit e (pending e bd c s)
           = Inr (open_session \<lparr>classes = [c\<lparr>available_slots := available_slots c - 1\<rparr>],
                                bookings = [b]\<rparr>)"
    by (simp add: p_def)
qed

lemma example_books:
  assumes "fc_id c = 1" and "is_active c" and "class_datetime c = tomorrow"
    and "0 < available_slots c" and "bc_class_id bd = 1"
  shows "create_booking example_env bd (open_session \<lparr>classes = [c], bookings = []\<rparr>)
     = (Inr \<lparr>b_id = 1, class_id = 1, client_name = bc_client_name bd,
             client_email = bc_client_email bd, booking_status = ''confirmed'',
             booking_reference = ''FB3F2A9C1E'', b_notes = bc_notes bd\<rparr>,
        open_session
          \<lparr>classes = [c\<lparr>available_slots := available_slots c - 1\<rparr>],
           bookings = [\<lparr>b_id = 1, class_id = 1, client_name = bc_client_name bd,
                        client_email = bc_client_email bd, booking_status = ''confirmed'',
                        booking_reference = ''FB3F2A9C1E'', b_notes = bc_notes bd\<rparr>]\<rparr>)"
proof -
  have e: "example_env = example_env\<lparr>refresh_fault := None\<rparr>"
    by (simp add: example_env_def)
  note ex = example_commit [OF assms e refl refl]
  from create_booking_written [OF ex(1,2) assms(4) ex(3,5) example_case_env(3)] ex(4)
  show ?thesis by simp
qed

lemma example_unrefreshed:
  assumes "fc_id c = 1" and "is_active c" and "class_datetime c = tomorrow"
    and "0 < available_slots c" and "bc_class_id bd = 1"
  shows "create_booking (example_env\<lparr>refresh_fault := Some m\<rparr>) bd
           (open_session \<lparr>classes = [c], bookings = []\<rparr>)
     = (Inl (InvalidBookingDataException (''Failed to create booking: '' @ m) []),
        open_session
          \<lparr>classes = [c\<lparr>available_slots := available_slots c - 1\<rparr>],
           bookings = [\<lparr>b_id = 1, class_id = 1, client_name = bc_client_name bd,
                        client_email = bc_client_email bd, booking_status = ''confirmed'',
                        booking_reference = ''FB3F2A9C1E'', b_notes = bc_notes bd\<rparr>]\<rparr>)"
proof -
  note ex = example_commit [OF assms refl refl refl]
  have "refresh_fault (example_env\<lparr>refresh_fault := Some m\<rparr>) = Some m" by simp
  from create_booking_unrefreshed [OF ex(1,2) assms(4) ex(3,5) this]
  show ?thesis .
qed

lemma john_books:
  assumes "fc_id c = 1" and "is_active c" and "class_datetime c = tomorrow"
    and "0 < available_slots c"
  shows "create_booking example_env john (open_session \<lparr>classes = [c], bookings = []\<rparr>)
     = (Inr johns_booking,
        open_session \<lparr>classes = [c\<lparr>available_slots := available_slots c - 1\<rparr>],
                      bookings = [johns_booking]\<rparr>)"
  using example_books [OF assms, of john] by (simp add: john_def johns_booking_def)

section \<open>A successful booking\<close>

text \<open>
  Claim C3, as stated: every request that passes the four checks creates a booking. It
  does not hold: the write can still fail. Here the reference drawn is the one another
  booking already carries, the commit breaks the uniqueness constraint on
  \<open>booking_reference\<close>, and the call ends in \<open>InvalidBookingDataException\<close> with no
  row written.
\<close>

theorem C3_counterexample:
  "get_class_by_id (open_session \<lparr>classes = [test_yoga], bookings = [janes_booking]\<rparr>)
     (bc_class_id john) = Inr test_yoga \<and>
   is_past example_env test_yoga = Inr False \<and>
   0 < available_slots test_yoga \<and>
   existing_booking (open_session \<lparr>classes = [test_yoga], bookings = [janes_booking]\<rparr>) john
     = None \<and>
   create_booking example_env john
       (open_session \<lparr>classes = [test_yoga], bookings = [janes_booking]\<rparr>)
     = (Inl (InvalidBookingDataException
               ''Failed to create booking: UNIQUE constraint failed: bookings.booking_reference''
               []),
        open_session \<lparr>classes = [test_yoga], bookings = [janes_booking]\<rparr>)"
proof -
  let ?s = "open_session \<lparr>classes = [test_yoga], bookings = [janes_booking]\<rparr>"
  let ?x = "IntegrityError ''UNIQUE constraint failed: bookings.booking_reference''"
  have checks: "get_class_by_id ?s (bc_class_id john) = Inr test_yoga"
    "is_past example_env test_yoga = Inr False" "0 < available_slots test_yoga"
    using example_session_checks [of "[janes_booking]"] by simp_all
  have none: "existing_booking ?s john = None"
    by (simp add: existing_booking_def open_session_def john_def janes_booking_def)
  have "db_commit example_env (pending example_env john test_yoga ?s) = Inl ?x"
    by (simp add: db_commit_def bookings_pending new_booking_def example_reference
        open_session_def janes_booking_def)
  from create_booking_write_failed [OF checks none this] checks none
  show ?thesis by (simp add: db_rollback_def open_session_def)
qed

text \<open>
  Claim C3, amended. For every request that passes the four checks and whose commit
  succeeds (the store reports no failure, at the commit or at the refresh that follows
  it, and the reference drawn is not in use),
  \<open>create_booking\<close> commits exactly one new row of \<open>bookings\<close>, confirmed, for the
  requested class, email and name; the row of the class found has one slot less and
  every other row of \<open>fitness_classes\<close> is as before; and the reference is \<open>FB\<close>
  followed by eight characters, each an upper-case hexadecimal digit.
\<close>

theorem C3_successful_booking:
  assumes "get_class_by_id s (bc_class_id bd) = Inr c"
    and "is_past e c = Inr False"
    and "0 < available_slots c"
    and "existing_booking s bd = None"
    and "commit_fault e = None"
    and "distinct (map booking_reference (bookings (work s)))"
    and "generate_booking_reference e \<notin> set (map booking_reference (bookings (work s)))"
    and "refresh_fault e = None"
  shows "\<exists>b s' pre post h.
           create_booking e bd s = (Inr b, s') \<and> store s' = work s' \<and>
           bookings (work s') = bookings (work s) @ [b] \<and>
           class_id b = bc_class_id bd \<and> client_email b = bc_client_email bd \<and>
           client_name b = bc_client_name bd \<and> booking_status b = ''confirmed'' \<and>
           classes (work s) = pre @ c # post \<and>
           classes (work s') = pre @ c\<lparr>available_slots := available_slots c - 1\<rparr> # post \<and>
           booking_reference b = ''FB'' @ h \<and> length h = 8 \<and>
           set h \<subseteq> set ''0123456789ABCDEF''"
proof -
  let ?b = "new_booking e s bd"
  let ?p = "pending e bd c s"
  let ?s' = "?p\<lparr>store := work ?p\<rparr>"
  have commit: "db_commit e ?p = Inr ?s'"
    using assms(5-7) by (rule db_commit_pending)
  have result: "create_booking e bd s = (Inr ?b, ?s')"
    using assms(1-4) commit assms(8) by (rule create_booking_written)
  obtain pre post where rows: "classes (work s) = pre @ c # post"
    "classes (work (mutate_class c (\<lambda>r. r\<lparr>available_slots := available_slots r - 1\<rparr>) s))
       = pre @ c\<lparr>available_slots := available_slots c - 1\<rparr> # post"
    using get_class_by_id_row [OF assms(1)] by blast
  obtain h where ref: "generate_booking_reference e = ''FB'' @ h" "length h = 8"
    "set h \<subseteq> set ''0123456789ABCDEF''"
    using reference_format by blast
  have "create_booking e bd s = (Inr ?b, ?s') \<and> store ?s' = work ?s' \<and>
        bookings (work ?s') = bookings (work s) @ [?b] \<and>
        class_id ?b = bc_class_id bd \<and> client_email ?b = bc_client_email bd \<and>
        client_name ?b = bc_client_name bd \<and> booking_status ?b = ''confirmed'' \<and>
        classes (work s) = pre @ c # post \<and>
        classes (work ?s') = pre @ c\<lparr>available_slots := available_slots c - 1\<rparr> # post \<and>
        booking_reference ?b = ''FB'' @ h \<and> length h = 8 \<and>
        set h \<subseteq> set ''0123456789ABCDEF''"
    using result rows ref by (simp add: bookings_pending classes_pending new_booking_def)
  then show ?thesis by blast
qed

theorem C3_successful_booking_witness:
  "\<exists>b s' pre post h.
     create_booking example_env john (open_session \<lparr>classes = [test_yoga], bookings = []\<rparr>)
       = (Inr b, s') \<and> store s' = work s' \<and>
     bookings (work s') = [] @ [b] \<and>
     class_id b = 1 \<and> client_email b = ''john.doe@example.com'' \<and>
     client_name b = codes ''John Doe'' \<and> booking_status b = ''confirmed'' \<and>
     [test_yoga] = pre @ test_yoga # post \<and>
     classes (work s') = pre @ test_yoga\<lparr>available_slots := 9\<rparr> # post \<and>
     booking_reference b = ''FB'' @ h \<and> length h = 8 \<and>
     set h \<subseteq> set ''0123456789ABCDEF''"
proof -
  let ?s = "open_session \<lparr>classes = [test_yoga], bookings = []\<rparr>"
  have checks: "get_class_by_id ?s (bc_class_id john) = Inr test_yoga"
    "is_past example_env test_yoga = Inr False" "0 < available_slots test_yoga"
    using example_session_checks [of "[]"] by simp_all
  have none: "existing_booking ?s john = None"
    by (simp add: existing_booking_def open_session_def)
  have refs: "distinct (map booking_reference (bookings (work ?s)))"
    "generate_booking_reference example_env \<notin> set (map booking_reference (bookings (work ?s)))"
    by (simp_all add: open_session_def)
  have slots: "available_slots test_yoga - 1 = 9" by (simp add: test_yoga_def)
  from C3_successful_booking [OF checks none example_case_env(1) refs example_case_env(3)]
  show ?thesis by (simp add: open_session_def john_def slots)
qed

section \<open>An unexpected failure while writing\<close>

text \<open>
  Claim C7, as stated: after every unexpected failure of the write phase nothing of the
  write survives, and the message the caller sees is generic and carries nothing of the
  cause. It does not hold. The message is built from \<open>str(e)\<close>, and the route hands the
  message on in the body of the 400 response. And \<open>refresh\<close> runs after the commit: when
  it fails, the rollback has nothing to undo, and the booking and the decrement stay
  committed.
\<close>

theorem C7_counterexample:
  "fst (create_booking locked_env john (open_session \<lparr>classes = [test_yoga], bookings = []\<rparr>))
     = Inl (InvalidBookingDataException
              ''Failed to create booking: (sqlite3.OperationalError) database is locked'' []) \<and>
   http_exception
     (InvalidBookingDataException
        ''Failed to create booking: (sqlite3.OperationalError) database is locked'' [])
     = Failed 400 ''Failed to create booking: (sqlite3.OperationalError) database is locked'' [] \<and>
   create_booking
       (example_env\<lparr>refresh_fault := Some ''(sqlite3.OperationalError) database is locked''\<rparr>)
       john (open_session \<lparr>classes = [test_yoga], bookings = []\<rparr>)
     = (Inl (InvalidBookingDataException
               ''Failed to create booking: (sqlite3.OperationalError) database is locked'' []),
        open_session
          \<lparr>classes = [test_yoga\<lparr>available_slots := 9\<rparr>], bookings = [johns_booking]\<rparr>)"
proof -
  let ?s = "open_session \<lparr>classes = [test_yoga], bookings = []\<rparr>"
  have checks: "get_class_by_id ?s (bc_class_id john) = Inr test_yoga"
    "is_past locked_env test_yoga = Inr False" "0 < available_slots test_yoga"
    using example_session_checks [of "[]"] by (simp_all add: is_past_def locked_now)
  have none: "existing_booking ?s john = None"
    by (simp add: existing_booking_def open_session_def)
  have "available_slots test_yoga - 1 = 9" by (simp add: test_yoga_def)
  with example_unrefreshed
    [of test_yoga john "''(sqlite3.OperationalError) database is locked''"]
  have "create_booking
       (example_env\<lparr>refresh_fault := Some ''(sqlite3.OperationalError) database is locked''\<rparr>)
       john ?s
     = (Inl (InvalidBookingDataException
               ''Failed to create booking: (sqlite3.OperationalError) database is locked'' []),
        open_session
          \<lparr>classes = [test_yoga\<lparr>available_slots := 9\<rparr>], bookings = [johns_booking]\<rparr>)"
    by (simp add: test_yoga_def john_def johns_booking_def)
  with create_booking_write_failed [OF checks none locked_commit]
  show ?thesis by simp
qed

text \<open>
  Claim C7, amended. When the commit of \<open>create_booking\<close> raises, the session is
  rolled back, so that neither the new booking nor the decrement survives. When the
  commit succeeds and the refresh that follows it raises, the call ends with the session
  as the commit left it: the new booking and the decrement are committed. Either
  failure is raised again as \<open>InvalidBookingDataException\<close> with empty details and the
  message \<open>Failed to create booking:\<close> followed by the text of the cause, and the route
  answers 400 with that message.
\<close>

theorem C7_write_failure_reported:
  "(get_class_by_id s (bc_class_id bd) = Inr c \<and> is_past e c = Inr False \<and>
    0 < available_slots c \<and> existing_booking s bd = None \<and>
    db_commit e (pending e bd c s) = Inl x \<longrightarrow>
      fst (create_booking e bd s)
        = Inl (InvalidBookingDataException (''Failed to create booking: '' @ exn_str x) []) \<and>
      store (snd (create_booking e bd s)) = store s \<and>
      work (snd (create_booking e bd s)) = store s) \<and>
   (get_class_by_id s (bc_class_id bd) = Inr c \<and> is_past e c = Inr False \<and>
    0 < available_slots c \<and> existing_booking s bd = None \<and>
    db_commit e (pending e bd c s) = Inr s' \<and>
    db_refresh e (new_booking e s bd) = Inl x \<longrightarrow>
      fst (create_booking e bd s)
        = Inl (InvalidBookingDataException (''Failed to create booking: '' @ exn_str x) []) \<and>
      snd (create_booking e bd s) = s' \<and> store s' = work (pending e bd c s)) \<and>
   http_exception (InvalidBookingDataException (''Failed to create booking: '' @ exn_str x) [])
     = Failed 400 (''Failed to create booking: '' @ exn_str x) []"
proof (intro conjI impI)
  assume "get_class_by_id s (bc_class_id bd) = Inr c \<and> is_past e c = Inr False \<and>
    0 < available_slots c \<and> existing_booking s bd = None \<and>
    db_commit e (pending e bd c s) = Inl x"
  with create_booking_write_failed [of s bd c e x]
  have r: "create_booking e bd s =
     (Inl (InvalidBookingDataException (''Failed to create booking: '' @ exn_str x) []),
      db_rollback s)"
    by simp
  then show "fst (create_booking e bd s)
      = Inl (InvalidBookingDataException (''Failed to create booking: '' @ exn_str x) [])"
    by simp
  from r show "store (snd (create_booking e bd s)) = store s"
    and "work (snd (create_booking e bd s)) = store s"
    by (simp_all add: db_rollback_def)
next
  assume a: "get_class_by_id s (bc_class_id bd) = Inr c \<and> is_past e c = Inr False \<and>
    0 < available_slots c \<and> existing_booking s bd = None \<and>
    db_commit e (pending e bd c s) = Inr s' \<and>
    db_refresh e (new_booking e s bd) = Inl x"
  then obtain m where m: "refresh_fault e = Some m" "x = StoreError m"
    by (auto simp: db_refresh_def split: option.splits)
  with a create_booking_unrefreshed [of s bd c e s' m]
  have r: "create_booking e bd s =
     (Inl (InvalidBookingDataException (''Failed to create booking: '' @ exn_str x) []), s')"
    by simp
  then show "fst (create_booking e bd s)
      = Inl (InvalidBookingDataException (''Failed to create booking: '' @ exn_str x) [])"
    and "snd (create_booking e bd s) = s'"
    by simp_all
  from a db_commit_Inr [of e "pending e bd c s" s']
  show "store s' = work (pending e bd c s)" by simp
next
  show "http_exception
      (InvalidBookingDataException (''Failed to create booking: '' @ exn_str x) [])
     = Failed 400 (''Failed to create booking: '' @ exn_str x) []"
    by simp
qed

theorem C7_write_failure_reported_witness:
  "fst (create_booking locked_env john (open_session \<lparr>classes = [test_yoga], bookings = []\<rparr>))
     = Inl (InvalidBookingDataException
              (''Failed to create booking: ''
                 @ ''(sqlite3.OperationalError) database is locked'') []) \<and>
   store (snd (create_booking locked_env john
                 (open_session \<lparr>classes = [test_yoga], bookings = []\<rparr>)))
     = \<lparr>classes = [test_yoga], bookings = []\<rparr> \<and>
   work (snd (create_booking locked_env john
                (open_session \<lparr>classes = [test_yoga], bookings = []\<rparr>)))
     = \<lparr>classes = [test_yoga], bookings = []\<rparr> \<and>
   fst (create_booking (example_env\<lparr>refresh_fault := Some ''connection lost''\<rparr>) john
          (open_session \<lparr>classes = [test_yoga], bookings = []\<rparr>))
     = Inl (InvalidBookingDataException
              (''Failed to create booking: '' @ ''connection lost'') []) \<and>
   snd (create_booking (example_env\<lparr>refresh_fault := Some ''connection lost''\<rparr>) john
          (open_session \<lparr>classes = [test_yoga], bookings = []\<rparr>))
     = open_session \<lparr>classes = [test_yoga\<lparr>available_slots := 9\<rparr>], bookings = [johns_booking]\<rparr>"
proof -
  define s where "s = open_session \<lparr>classes = [test_yoga], bookings = []\<rparr>"
  define e where "e = example_env\<lparr>refresh_fault := Some ''connection lost''\<rparr>"
  let ?x = "StoreError ''(sqlite3.OperationalError) database is locked''"
  have checks: "get_class_by_id s (bc_class_id john) = Inr test_yoga \<and>
    is_past locked_env test_yoga = Inr False \<and> 0 < available_slots test_yoga"
    using example_session_checks [of "[]"] by (simp add: is_past_def locked_now s_def)
  have none: "existing_booking s john = None"
    by (simp add: existing_booking_def open_session_def s_def)
  from C7_write_failure_reported [of s john test_yoga locked_env ?x] checks none
    locked_commit [of "pending locked_env john test_yoga s"]
  have 1: "fst (create_booking locked_env john s)
      = Inl (InvalidBookingDataException (''Failed to create booking: '' @ exn_str ?x) []) \<and>
      store (snd (create_booking locked_env john s)) = store s \<and>
      work (snd (create_booking locked_env john s)) = store s"
    by simp
  have yoga: "fc_id test_yoga = 1" "is_active test_yoga" "class_datetime test_yoga = tomorrow"
    "0 < available_slots test_yoga" "bc_class_id john = 1"
    by (simp_all add: test_yoga_def john_def)
  note ex = example_commit [OF yoga e_def s_def refl]
  have "db_refresh e (new_booking e s john) = Inl (StoreError ''connection lost'')"
    by (simp add: db_refresh_def e_def)
  with C7_write_failure_reported
    [of s john test_yoga e "StoreError ''connection lost''"
        "open_session \<lparr>classes = [test_yoga\<lparr>available_slots := available_slots test_yoga - 1\<rparr>],
                       bookings = [johns_booking]\<rparr>"]
    ex(1,2,3,5) yoga(4)
  have 2: "fst (create_booking e john s)
      = Inl (InvalidBookingDataException
               (''Failed to create booking: '' @ exn_str (StoreError ''connection lost'')) []) \<and>
      snd (create_booking e john s)
        = open_session \<lparr>classes = [test_yoga\<lparr>available_slots := available_slots test_yoga - 1\<rparr>],
                        bookings = [johns_booking]\<rparr>"
    by (simp add: john_def johns_booking_def)
  have "available_slots test_yoga - 1 = 9" by (simp add: test_yoga_def)
  with 1 2 show ?thesis
    unfolding e_def s_def by (simp add: open_session_def)
qed

section \<open>What an operation commits\<close>

lemma store_mutate_class: "store (mutate_class c f s) = store s"
  by (simp add: mutate_class_def set_classes_def)

lemma store_convert_classes: "store (snd (convert_classes e tz cs s)) = store s"
proof (induction cs arbitrary: s)
  case Nil
  then show ?case by simp
next
  case (Cons c cs)
  show ?case
  proof (cases "convert_timezone (tz_manager e) (tzdb_of e) (class_datetime c) tz")
    case (Inl x)
    then show ?thesis by simp
  next
    case (Inr dt)
    let ?s1 = "mutate_class c (\<lambda>r. r\<lparr>class_datetime := dt\<rparr>) s"
    have "store (snd (convert_classes e tz cs ?s1)) = store s"
      using Cons.IH [of ?s1] by (simp add: store_mutate_class)
    with Inr show ?thesis
      by (cases "convert_classes e tz cs ?s1") (auto split: sum.splits)
  qed
qed

lemma store_get_all_classes: "store (snd (get_all_classes e timezone s)) = store s"
  by (simp add: get_all_classes_def Let_def store_convert_classes split: option.splits)

lemma store_create_booking:
  "store (snd (create_booking e bd (open_session d))) = d \<or>
   (\<exists>c. get_class_by_id (open_session d) (bc_class_id bd) = Inr c \<and>
        0 < available_slots c \<and> existing_booking (open_session d) bd = None \<and>
        store (snd (create_booking e bd (open_session d)))
          = work (pending e bd c (open_session d)))"
  by (cases e bd "open_session d" rule: create_booking_cases)
     (auto simp: db_rollback_def open_session_def)

lemma store_create_sample_classes:
  "store (snd (create_sample_classes e (open_session d))) = d \<or>
   store (snd (create_sample_classes e (open_session d)))
     = d\<lparr>classes := classes d @ sample_classes e (next_class_id (classes d))\<rparr>"
  by (auto simp: create_sample_classes_def Let_def open_session_def set_classes_def
      db_commit_def db_rollback_def split: option.splits)

lemma slots_invariant_decrement:
  "slots_invariant c \<Longrightarrow> 0 < available_slots c \<Longrightarrow>
   slots_invariant (c\<lparr>available_slots := available_slots c - 1\<rparr>)"
  by (simp add: slots_invariant_def booked_slots_def)

lemma slots_pending:
  assumes "get_class_by_id s (bc_class_id bd) = Inr c" and "0 < available_slots c"
    and "list_all slots_invariant (classes (work s))"
  shows "list_all slots_invariant (classes (work (pending e bd c s))) \<and>
         map max_slots (classes (work (pending e bd c s))) = map max_slots (classes (work s))"
proof -
  obtain pre post where rows: "classes (work s) = pre @ c # post"
    "classes (work (mutate_class c (\<lambda>r. r\<lparr>available_slots := available_slots r - 1\<rparr>) s))
       = pre @ c\<lparr>available_slots := available_slots c - 1\<rparr> # post"
    using get_class_by_id_row [OF assms(1)] by blast
  with assms(2,3) show ?thesis
    by (simp add: classes_pending slots_invariant_decrement)
qed

lemma slots_create_booking:
  assumes "list_all slots_invariant (classes d)"
  shows "list_all slots_invariant (classes (store (snd (create_booking e bd (open_session d))))) \<and>
         map max_slots (classes (store (snd (create_booking e bd (open_session d)))))
           = map max_slots (classes d)"
proof -
  from store_create_booking [of e bd d] show ?thesis
  proof
    assume "store (snd (create_booking e bd (open_session d))) = d"
    with assms show ?thesis by simp
  next
    assume "\<exists>c. get_class_by_id (open_session d) (bc_class_id bd) = Inr c \<and>
        0 < available_slots c \<and> existing_booking (open_session d) bd = None \<and>
        store (snd (create_booking e bd (open_session d)))
          = work (pending e bd c (open_session d))"
    then obtain c where c: "get_class_by_id (open_session d) (bc_class_id bd) = Inr c"
      "0 < available_slots c"
      "store (snd (create_booking e bd (open_session d))) = work (pending e bd c (open_session d))"
      by blast
    from assms have "list_all slots_invariant (classes (work (open_session d)))"
      by (simp add: open_session_def)
    from slots_pending [OF c(1,2) this, of e] c(3) show ?thesis
      by (simp add: open_session_def)
  qed
qed

lemma slots_sample_classes: "list_all slots_invariant (sample_classes e i)"
  by (simp add: sample_classes_def sample_class_def slots_invariant_def booked_slots_def)

lemma slots_create_sample_classes:
  assumes "list_all slots_invariant (classes d)"
  shows "list_all slots_invariant (classes (store (snd (create_sample_classes e (open_session d)))))"
  using store_create_sample_classes [of e d] assms slots_sample_classes
  by auto

lemma slots_reachable:
  assumes "reachable d0 d" and "list_all slots_invariant (classes d0)"
  shows "list_all slots_invariant (classes d)"
  using assms
proof (induction rule: reachable.induct)
  case start
  then show ?case by simp
next
  case (booked d e bd)
  then show ?case by (simp add: slots_create_booking)
next
  case (listed d e timezone)
  then show ?case by (simp add: store_get_all_classes open_session_def)
next
  case (seeded d e)
  then show ?case by (simp add: slots_create_sample_classes)
qed

lemma find_None_filter: "find P xs = None \<Longrightarrow> filter P xs = []"
  by (induction xs) (auto split: if_splits)

lemma filter_Cons_find: "filter P xs = x # ys \<Longrightarrow> find P xs = Some x"
  by (induction xs) (auto split: if_splits)

lemma existing_booking_confirmed:
  "confirmed_for (work s) (bc_class_id bd) (bc_client_email bd) = b # bs \<Longrightarrow>
   existing_booking s bd = Some b"
  unfolding confirmed_for_def existing_booking_def by (rule filter_Cons_find)

lemma no_existing_booking:
  "existing_booking s bd = None \<Longrightarrow>
   confirmed_for (work s) (bc_class_id bd) (bc_client_email bd) = []"
  unfolding confirmed_for_def existing_booking_def by (rule find_None_filter)

lemma unique_pending:
  assumes "existing_booking s bd = None"
    and "\<forall>cid email. length (confirmed_for (work s) cid email) \<le> 1"
  shows "length (confirmed_for (work (pending e bd c s)) cid email) \<le> 1"
proof (cases "cid = bc_class_id bd \<and> email = bc_client_email bd")
  case True
  with no_existing_booking [OF assms(1)] have "confirmed_for (work s) cid email = []" by simp
  then show ?thesis
    by (simp add: confirmed_for_def bookings_pending)
next
  case False
  then have "confirmed_for (work (pending e bd c s)) cid email = confirmed_for (work s) cid email"
    by (auto simp: confirmed_for_def bookings_pending new_booking_def)
  with assms(2) show ?thesis by simp
qed

lemma unique_create_booking:
  assumes "\<forall>cid email. length (confirmed_for d cid email) \<le> 1"
  shows "length (confirmed_for (store (snd (create_booking e bd (open_session d)))) cid email) \<le> 1"
proof -
  from store_create_booking [of e bd d] show ?thesis
  proof
    assume "store (snd (create_booking e bd (open_session d))) = d"
    with assms show ?thesis by simp
  next
    assume "\<exists>c. get_class_by_id (open_session d) (bc_class_id bd) = Inr c \<and>
        0 < available_slots c \<and> existing_booking (open_session d) bd = None \<and>
        store (snd (create_booking e bd (open_session d)))
          = work (pending e bd c (open_session d))"
    then obtain c where c: "existing_booking (open_session d) bd = None"
      "store (snd (create_booking e bd (open_session d))) = work (pending e bd c (open_session d))"
      by blast
    from assms have "\<forall>cid email. length (confirmed_for (work (open_session d)) cid email) \<le> 1"
      by (simp add: open_session_def)
    from unique_pending [OF c(1) this] c(2) show ?thesis by simp
  qed
qed

lemma unique_create_sample_classes:
  "confirmed_for (store (snd (create_sample_classes e (open_session d)))) cid email
     = confirmed_for d cid email"
  using store_create_sample_classes [of e d] by (auto simp: confirmed_for_def)

lemma unique_reachable:
  assumes "reachable d0 d" and "\<forall>cid email. length (confirmed_for d0 cid email) \<le> 1"
  shows "\<forall>cid email. length (confirmed_for d cid email) \<le> 1"
  using assms
proof (induction rule: reachable.induct)
  case start
  then show ?case by simp
next
  case (booked d e bd)
  then show ?case using unique_create_booking [of d e bd] by blast
next
  case (listed d e timezone)
  then show ?case by (simp add: store_get_all_classes open_session_def)
next
  case (seeded d e)
  then show ?case by (simp add: unique_create_sample_classes)
qed

section \<open>Listing does not write\<close>

text \<open>
  Claim C6. Whatever display timezone is supplied, listing the classes converts the
  timestamps of the loaded objects only: the committed rows, and so the stored
  \<open>class_datetime\<close> of every class, are the same after the call as before it.
\<close>

theorem C6_listing_keeps_stored_rows:
  "store (snd (get_all_classes e timezone s)) = store s \<and>
   map class_datetime (classes (store (snd (get_all_classes e timezone s))))
     = map class_datetime (classes (store s))"
  by (simp add: store_get_all_classes)

section \<open>The slot counters\<close>

text \<open>
  Claim C5. In every state reachable from one where every class has
  \<open>0 \<le> available_slots \<le> max_slots\<close>, every class has it again, and
  \<open>available_slots + booked_slots = max_slots\<close> holds with \<open>booked_slots\<close> the
  derived value \<open>max_slots - available_slots\<close>. In particular \<open>create_booking\<close>
  preserves the invariant and leaves every \<open>max_slots\<close> as it was.
\<close>

theorem C5_slots_invariant:
  "(list_all slots_invariant (classes d0) \<and> reachable d0 d \<longrightarrow>
      list_all slots_invariant (classes d)) \<and>
   (list_all slots_invariant (classes d) \<longrightarrow>
      list_all slots_invariant (classes (store (snd (create_booking e bd (open_session d))))) \<and>
      map max_slots (classes (store (snd (create_booking e bd (open_session d)))))
        = map max_slots (classes d)) \<and>
   slots_invariant c
     = (0 \<le> available_slots c \<and> available_slots c \<le> max_slots c \<and>
        available_slots c + booked_slots c = max_slots c) \<and>
   available_slots c + booked_slots c = max_slots c"
  using slots_reachable [of d0 d] slots_create_booking [of d e bd]
  by (simp add: slots_invariant_def booked_slots_def)

theorem C5_slots_invariant_witness:
  "list_all slots_invariant (classes \<lparr>classes = [test_yoga], bookings = []\<rparr>) \<and>
   reachable \<lparr>classes = [test_yoga], bookings = []\<rparr>
     \<lparr>classes = [test_yoga\<lparr>available_slots := 9\<rparr>], bookings = [johns_booking]\<rparr> \<and>
   list_all slots_invariant
     (classes \<lparr>classes = [test_yoga\<lparr>available_slots := 9\<rparr>], bookings = [johns_booking]\<rparr>) \<and>
   map max_slots [test_yoga\<lparr>available_slots := 9\<rparr>] = map max_slots [test_yoga]"
proof -
  define d0 where "d0 = \<lparr>classes = [test_yoga], bookings = []\<rparr>"
  define d1 where
    "d1 = \<lparr>classes = [test_yoga\<lparr>available_slots := 9\<rparr>], bookings = [johns_booking]\<rparr>"
  have "available_slots test_yoga - 1 = 9" by (simp add: test_yoga_def)
  with john_books [of test_yoga]
  have "create_booking example_env john (open_session d0) = (Inr johns_booking, open_session d1)"
    by (simp add: test_yoga_def d0_def d1_def)
  then have booked: "store (snd (create_booking example_env john (open_session d0))) = d1"
    by (simp add: open_session_def)
  have inv0: "list_all slots_invariant (classes d0)"
    by (simp add: slots_invariant_def booked_slots_def test_yoga_def d0_def)
  have "reachable d0 (store (snd (create_booking example_env john (open_session d0))))"
    by (rule reachable.booked) (rule reachable.start)
  then have r: "reachable d0 d1" by (simp only: booked)
  from C5_slots_invariant [of d0 d1] inv0 r
  have "list_all slots_invariant (classes d1)" by blast
  moreover from C5_slots_invariant [of d0 d0 example_env john] inv0
  have "map max_slots (classes (store (snd (create_booking example_env john (open_session d0)))))
          = map max_slots (classes d0)" by blast
  ultimately show ?thesis using inv0 r by (simp add: booked) (simp add: d0_def d1_def)
qed

section \<open>One confirmed booking for a class and an email\<close>

text \<open>
  Claim C2, as stated: when a confirmed booking of the pair exists, a second call for
  the pair fails with \<open>DuplicateBooking\<close>. It does not hold: the capacity check comes
  before the duplicate check. After the one slot of a class has been booked, the same
  client's second call is refused with \<open>NoSlotsAvailableException\<close>.
\<close>

theorem C2_counterexample:
  "create_booking example_env john (open_session \<lparr>classes = [last_slot], bookings = []\<rparr>)
     = (Inr johns_booking,
        open_session \<lparr>classes = [last_slot\<lparr>available_slots := 0\<rparr>],
                      bookings = [johns_booking]\<rparr>) \<and>
   confirmed_for \<lparr>classes = [last_slot\<lparr>available_slots := 0\<rparr>], bookings = [johns_booking]\<rparr>
       (bc_class_id john) (bc_client_email john) = [johns_booking] \<and>
   fst (create_booking example_env john
          (open_session \<lparr>classes = [last_slot\<lparr>available_slots := 0\<rparr>],
                         bookings = [johns_booking]\<rparr>))
     = Inl (NoSlotsAvailableException
              (''No available slots for class '' @ [CHR 0x27] @ ''Test Yoga'' @ [CHR 0x27])
              [(''class_id'', DInt 1), (''available_slots'', DInt 0)])"
proof (intro conjI)
  have "available_slots last_slot - 1 = 0" by (simp add: last_slot_def)
  with john_books [of last_slot]
  show "create_booking example_env john (open_session \<lparr>classes = [last_slot], bookings = []\<rparr>)
     = (Inr johns_booking,
        open_session \<lparr>classes = [last_slot\<lparr>available_slots := 0\<rparr>],
                      bookings = [johns_booking]\<rparr>)"
    by (simp add: last_slot_def test_yoga_def)
next
  show "confirmed_for \<lparr>classes = [last_slot\<lparr>available_slots := 0\<rparr>], bookings = [johns_booking]\<rparr>
       (bc_class_id john) (bc_client_email john) = [johns_booking]"
    by (simp add: confirmed_for_def john_def johns_booking_def)
next
  let ?c = "last_slot\<lparr>available_slots := 0\<rparr>"
  let ?s = "open_session \<lparr>classes = [?c], bookings = [johns_booking]\<rparr>"
  have found: "get_class_by_id ?s (bc_class_id john) = Inr ?c"
    by (simp add: get_class_by_id_def open_session_def john_def last_slot_def test_yoga_def)
  have np: "is_past example_env ?c = Inr False"
    by (simp add: is_past_def dt_less_def example_now tomorrow_def last_slot_def test_yoga_def)
  from create_booking_no_slots [OF found np]
  show "fst (create_booking example_env john ?s)
     = Inl (NoSlotsAvailableException
              (''No available slots for class '' @ [CHR 0x27] @ ''Test Yoga'' @ [CHR 0x27])
              [(''class_id'', DInt 1), (''available_slots'', DInt 0)])"
    by (simp add: last_slot_def test_yoga_def john_def)
qed

text \<open>
  Claim C2, amended. In every state reachable from one with at most one confirmed
  booking for each class and email, there is at most one confirmed booking for each
  class and email. When a confirmed booking of the request's class and email exists,
  \<open>create_booking\<close> fails and changes nothing, so no second confirmed booking is
  created; and it fails with \<open>DuplicateBookingException\<close> carrying the id of the
  existing booking whenever the existence, timing and capacity checks pass.
\<close>

theorem C2_one_confirmed_booking:
  "((\<forall>cid email. length (confirmed_for d0 cid email) \<le> 1) \<and> reachable d0 d \<longrightarrow>
      length (confirmed_for d class email) \<le> 1) \<and>
   (confirmed_for d (bc_class_id bd) (bc_client_email bd) = b # bs \<longrightarrow>
      (\<exists>x. fst (create_booking e bd (open_session d)) = Inl x) \<and>
      snd (create_booking e bd (open_session d)) = open_session d \<and>
      (get_class_by_id (open_session d) (bc_class_id bd) = Inr c \<and> is_past e c = Inr False \<and>
       0 < available_slots c \<longrightarrow>
         fst (create_booking e bd (open_session d)) =
           Inl (DuplicateBookingException
                  (''Client '' @ bc_client_email bd @ '' already has a booking for this class'')
                  [(''existing_booking_id'', DInt (b_id b))])))"
proof (intro conjI impI)
  assume "(\<forall>cid email. length (confirmed_for d0 cid email) \<le> 1) \<and> reachable d0 d"
  then show "length (confirmed_for d class email) \<le> 1"
    using unique_reachable [of d0 d] by blast
next
  assume "confirmed_for d (bc_class_id bd) (bc_client_email bd) = b # bs"
  then have ex: "existing_booking (open_session d) bd = Some b"
    using existing_booking_confirmed [of "open_session d" bd b bs] by (simp add: open_session_def)
  show "\<exists>x. fst (create_booking e bd (open_session d)) = Inl x"
    using ex by (cases e bd "open_session d" rule: create_booking_cases) auto
  show "snd (create_booking e bd (open_session d)) = open_session d"
    using ex by (cases e bd "open_session d" rule: create_booking_cases)
      (auto simp: db_rollback_def open_session_def)
  assume "get_class_by_id (open_session d) (bc_class_id bd) = Inr c \<and> is_past e c = Inr False \<and>
       0 < available_slots c"
  with ex show "fst (create_booking e bd (open_session d)) =
           Inl (DuplicateBookingException
                  (''Client '' @ bc_client_email bd @ '' already has a booking for this class'')
                  [(''existing_booking_id'', DInt (b_id b))])"
    by (simp add: create_booking_duplicate)
qed

theorem C2_one_confirmed_booking_witness:
  "reachable \<lparr>classes = [test_yoga], bookings = []\<rparr>
     \<lparr>classes = [test_yoga\<lparr>available_slots := 9\<rparr>], bookings = [johns_booking]\<rparr> \<and>
   length (confirmed_for
             \<lparr>classes = [test_yoga\<lparr>available_slots := 9\<rparr>], bookings = [johns_booking]\<rparr>
             1 ''john.doe@example.com'') \<le> 1 \<and>
   confirmed_for \<lparr>classes = [test_yoga\<lparr>available_slots := 9\<rparr>], bookings = [johns_booking]\<rparr>
       (bc_class_id john) (bc_client_email john) = [johns_booking] \<and>
   create_booking example_env john
       (open_session \<lparr>classes = [test_yoga\<lparr>available_slots := 9\<rparr>], bookings = [johns_booking]\<rparr>)
     = (Inl (DuplicateBookingException
               ''Client john.doe@example.com already has a booking for this class''
               [(''existing_booking_id'', DInt 1)]),
        open_session \<lparr>classes = [test_yoga\<lparr>available_slots := 9\<rparr>], bookings = [johns_booking]\<rparr>)"
proof -
  define d0 where "d0 = \<lparr>classes = [test_yoga], bookings = []\<rparr>"
  define c where "c = test_yoga\<lparr>available_slots := 9\<rparr>"
  define d1 where "d1 = \<lparr>classes = [c], bookings = [johns_booking]\<rparr>"
  have "available_slots test_yoga - 1 = 9" by (simp add: test_yoga_def)
  with john_books [of test_yoga]
  have "create_booking example_env john (open_session d0) = (Inr johns_booking, open_session d1)"
    by (simp add: test_yoga_def d0_def d1_def c_def)
  then have booked: "store (snd (create_booking example_env john (open_session d0))) = d1"
    by (simp add: open_session_def)
  have "reachable d0 (store (snd (create_booking example_env john (open_session d0))))"
    by (rule reachable.booked) (rule reachable.start)
  then have r: "reachable d0 d1" by (simp only: booked)
  have u0: "\<forall>cid email. length (confirmed_for d0 cid email) \<le> 1"
    by (simp add: confirmed_for_def d0_def)
  have conf: "confirmed_for d1 (bc_class_id john) (bc_client_email john) = johns_booking # []"
    by (simp add: confirmed_for_def john_def johns_booking_def d1_def)
  have checks: "get_class_by_id (open_session d1) (bc_class_id john) = Inr c \<and>
      is_past example_env c = Inr False \<and> 0 < available_slots c"
    by (simp add: get_class_by_id_def open_session_def john_def test_yoga_def
      is_past_def dt_less_def example_now tomorrow_def d1_def c_def)
  note inst = C2_one_confirmed_booking
    [of d0 d1 1 "''john.doe@example.com''" john johns_booking "[]" example_env c]
  from inst u0 r have "length (confirmed_for d1 1 ''john.doe@example.com'') \<le> 1" by blast
  moreover from inst conf checks
  have "fst (create_booking example_env john (open_session d1)) =
           Inl (DuplicateBookingException
                  (''Client '' @ bc_client_email john @ '' already has a booking for this class'')
                  [(''existing_booking_id'', DInt (b_id johns_booking))])"
    and "snd (create_booking example_env john (open_session d1)) = open_session d1"
    by blast+
  ultimately show ?thesis
    using r conf unfolding d0_def d1_def c_def
    by (simp add: prod_eq_iff john_def johns_booking_def)
qed


section \<open>Validated names and converted timestamps\<close>







text \<open>
  Building the response of a booking fails, whatever the booking and the session: the
  converted timestamp carries an offset, \<open>datetime.now()\<close> carries none, and comparing
  them raises \<open>TypeError\<close>; the other two failures are a class that is not found and a
  reference timezone the database does not know. The route answers each of them 500.
\<close>

lemma convert_timezone_aware:
  "convert_timezone tzm db dt target = Inr dt' \<Longrightarrow> \<exists>off. utcoffset dt' = Some off"
  by (auto simp: convert_timezone_def Let_def astimezone_def fromutc_def split: option.splits)

lemma validate_future_datetime_aware:
  "utcoffset dt = Some off \<Longrightarrow>
   validate_future_datetime e dt
     = Inl (TypeError ''can't compare offset-naive and offset-aware datetimes'')"
  by (simp add: validate_future_datetime_def dt_le_def local_now_def)

lemma booking_response_raises:
  "\<exists>x. booking_response e b s = Inl x \<and>
        http_exception x = Failed 500 ''Failed to create booking'' []"
proof (cases "find (\<lambda>c. fc_id c = class_id b) (classes (work s))")
  case None
  then show ?thesis by (simp add: booking_response_def)
next
  case (Some c)
  show ?thesis
  proof (cases "convert_timezone (tz_manager e) (tzdb_of e) (class_datetime c) DEFAULT_TIMEZONE")
    case (Inl x)
    then have "x = UnknownTimeZoneError DEFAULT_TIMEZONE"
      by (auto simp: convert_timezone_def Let_def split: option.splits)
    with Some Inl show ?thesis by (simp add: booking_response_def)
  next
    case (Inr dt)
    from convert_timezone_aware [OF this] obtain off where "utcoffset dt = Some off" by blast
    from validate_future_datetime_aware [OF this, of e] Some Inr
    show ?thesis by (simp add: booking_response_def)
  qed
qed

lemma http_exception_not_Created: "http_exception x \<noteq> Created r"
  by (cases x) simp_all

lemma booking_response_Inr: "booking_response e b s \<noteq> Inr r"
  using booking_response_raises [of e b s] by auto

lemma post_book_not_Created: "fst (post_book email_str e rq d) \<noteq> Created r"
  by (auto simp: post_book_def http_exception_not_Created booking_response_Inr
      split: sum.splits prod.splits)





lemma extends_ascii_cased: "extends_ascii u \<Longrightarrow> c < 128 \<Longrightarrow> iscased u c = ascii_cased c"
  by (simp add: extends_ascii_def)


lemma extends_ascii_lower:
  "extends_ascii u \<Longrightarrow> i < length s \<Longrightarrow> s ! i < 128 \<Longrightarrow> lower_at u s i = ascii_tolower (s ! i)"
  by (simp add: extends_ascii_def)


lemma example_char_db [simp]: "char_db example_env = ascii_ucd"
  by (simp add: example_env_def)




lemma convert_timezone_known:
  "db target = Some tz \<Longrightarrow>
   convert_timezone tzm db dt target = Inr (fromutc tz (instant tzm dt))"
  by (cases "utcoffset dt")
     (simp_all add: convert_timezone_def localize_def astimezone_def instant_def)

lemma instant_fromutc: "instant tzm (fromutc tz u) = u"
  by (simp add: instant_def fromutc_def)

lemma convert_classes_unknown:
  "tzdb_of e tz = None \<Longrightarrow> cs \<noteq> [] \<Longrightarrow>
   convert_classes e tz cs s = (Inl (UnknownTimeZoneError tz), s)"
  by (cases cs) (simp_all add: convert_timezone_def)

lemma example_tz [simp]:
  "tzdb_of example_env = example_tzdb" "tz_manager example_env = \<lparr>default_tz = ist\<rparr>"
  by (simp_all add: example_env_def)

lemma example_upcoming: "upcoming example_env [test_yoga] = [test_yoga]"
  by (simp add: upcoming_def Let_def example_now instant_def test_yoga_def tomorrow_def)

text \<open>
  The listing does change the loaded objects, that is the session's view: with the
  display timezone \<open>UTC\<close> the one class of the example is returned, and held in the
  session, with its timestamp converted, while the committed row keeps its own.
\<close>

lemma listing_converts_loaded_objects:
  "get_all_classes example_env (Some ''UTC'') (open_session \<lparr>classes = [test_yoga], bookings = []\<rparr>)
     = (Inr [test_yoga\<lparr>class_datetime := tomorrow_utc\<rparr>],
        \<lparr>store = \<lparr>classes = [test_yoga], bookings = []\<rparr>,
         work = \<lparr>classes = [test_yoga\<lparr>class_datetime := tomorrow_utc\<rparr>], bookings = []\<rparr>\<rparr>)"
proof -
  have c: "convert_timezone \<lparr>default_tz = ist\<rparr> example_tzdb (class_datetime test_yoga) ''UTC''
      = Inr tomorrow_utc"
    by (simp add: convert_timezone_def astimezone_def fromutc_def example_tzdb_def utc_def
        test_yoga_def tomorrow_def tomorrow_utc_def)
  show ?thesis
    by (simp add: get_all_classes_def Let_def open_session_def example_upcoming c
        mutate_class_def set_classes_def)
qed


section \<open>The client's name\<close>





section \<open>Converting to a display timezone\<close>

text \<open>
  Claim C9. For a target identifier the timezone database does not know,
  \<open>convert_timezone\<close> fails with pytz's \<open>UnknownTimeZoneError\<close> (the code's
  invalid-timezone error), whatever the timestamp; so does the listing when it has a
  class to convert. For an identifier it knows, the result denotes the same instant
  and carries the offset of the target timezone at that instant; the instant of a
  timestamp without offset is its reading in the reference timezone.
\<close>

theorem C9_convert_timezone:
  "(db target = None \<longrightarrow>
      convert_timezone tzm db dt target = Inl (UnknownTimeZoneError target)) \<and>
   (db target = Some tz \<longrightarrow>
      (\<exists>dt'. convert_timezone tzm db dt target = Inr dt' \<and>
         instant tzm dt' = instant tzm dt \<and>
         utcoffset dt' = Some (offset_at_utc tz (instant tzm dt)) \<and>
         wall dt' = instant tzm dt + offset_at_utc tz (instant tzm dt))) \<and>
   (utcoffset dt = None \<longrightarrow>
      instant tzm dt = wall dt - offset_at_wall (default_tz tzm) (wall dt)) \<and>
   (utcoffset dt = Some off \<longrightarrow> instant tzm dt = wall dt - off) \<and>
   (tzdb_of e target = None \<and> target \<noteq> [] \<and> upcoming e (classes (work s)) \<noteq> [] \<longrightarrow>
      fst (get_all_classes e (Some target) s) = Inl (UnknownTimeZoneError target))"
proof (intro conjI impI)
  assume "db target = None"
  then show "convert_timezone tzm db dt target = Inl (UnknownTimeZoneError target)"
    by (simp add: convert_timezone_def)
next
  assume "db target = Some tz"
  with convert_timezone_known [of db target tz tzm dt]
  show "\<exists>dt'. convert_timezone tzm db dt target = Inr dt' \<and>
         instant tzm dt' = instant tzm dt \<and>
         utcoffset dt' = Some (offset_at_utc tz (instant tzm dt)) \<and>
         wall dt' = instant tzm dt + offset_at_utc tz (instant tzm dt)"
    by (simp add: instant_fromutc) (simp add: fromutc_def)
next
  assume "utcoffset dt = None"
  then show "instant tzm dt = wall dt - offset_at_wall (default_tz tzm) (wall dt)"
    by (simp add: instant_def)
next
  assume "utcoffset dt = Some off"
  then show "instant tzm dt = wall dt - off" by (simp add: instant_def)
next
  assume "tzdb_of e target = None \<and> target \<noteq> [] \<and> upcoming e (classes (work s)) \<noteq> []"
  then show "fst (get_all_classes e (Some target) s) = Inl (UnknownTimeZoneError target)"
    by (simp add: get_all_classes_def Let_def convert_classes_unknown)
qed

theorem C9_convert_timezone_witness:
  "convert_timezone \<lparr>default_tz = ist\<rparr> example_tzdb tomorrow ''Mars/Olympus''
     = Inl (UnknownTimeZoneError ''Mars/Olympus'') \<and>
   convert_timezone \<lparr>default_tz = ist\<rparr> example_tzdb tomorrow ''UTC'' = Inr tomorrow_utc \<and>
   convert_timezone \<lparr>default_tz = ist\<rparr> example_tzdb tomorrow_naive ''UTC'' = Inr tomorrow_utc \<and>
   instant \<lparr>default_tz = ist\<rparr> tomorrow_naive = 1700086400000000 \<and>
   instant \<lparr>default_tz = ist\<rparr> tomorrow = 1700086400000000 \<and>
   fst (get_all_classes example_env (Some ''Mars/Olympus'')
          (open_session \<lparr>classes = [test_yoga], bookings = []\<rparr>))
     = Inl (UnknownTimeZoneError ''Mars/Olympus'')"
proof -
  define tzm where "tzm = \<lparr>default_tz = ist\<rparr>"
  define s where "s = open_session \<lparr>classes = [test_yoga], bookings = []\<rparr>"
  have unknown: "example_tzdb ''Mars/Olympus'' = None" by (simp add: example_tzdb_def)
  have known: "example_tzdb ''UTC'' = Some utc" by (simp add: example_tzdb_def)
  have naive: "utcoffset tomorrow_naive = None" by (simp add: tomorrow_naive_def)
  have aware: "utcoffset tomorrow = Some 19800000000" by (simp add: tomorrow_def)
  have listed: "tzdb_of example_env ''Mars/Olympus'' = None \<and> ''Mars/Olympus'' \<noteq> [] \<and>
      upcoming example_env (classes (work s)) \<noteq> []"
    by (simp add: unknown s_def open_session_def example_upcoming)
  note a = C9_convert_timezone
    [of example_tzdb "''Mars/Olympus''" tzm tomorrow _ _ example_env s]
  note b = C9_convert_timezone [of example_tzdb "''UTC''" tzm tomorrow utc 19800000000]
  note c = C9_convert_timezone [of example_tzdb "''UTC''" tzm tomorrow_naive utc]
  from a unknown listed
  have 1: "convert_timezone tzm example_tzdb tomorrow ''Mars/Olympus''
             = Inl (UnknownTimeZoneError ''Mars/Olympus'')"
    and 6: "fst (get_all_classes example_env (Some ''Mars/Olympus'') s)
             = Inl (UnknownTimeZoneError ''Mars/Olympus'')"
    by blast+
  from b aware have 5: "instant tzm tomorrow = 1700086400000000"
    by (simp add: tomorrow_def)
  from c naive have 4: "instant tzm tomorrow_naive = 1700086400000000"
    by (simp add: tomorrow_naive_def tzm_def ist_def)
  from b known obtain dt' where "convert_timezone tzm example_tzdb tomorrow ''UTC'' = Inr dt'"
    "utcoffset dt' = Some (offset_at_utc utc (instant tzm tomorrow))"
    "wall dt' = instant tzm tomorrow + offset_at_utc utc (instant tzm tomorrow)"
    by blast
  then have 2: "convert_timezone tzm example_tzdb tomorrow ''UTC'' = Inr tomorrow_utc"
    by (simp add: 5 utc_def tomorrow_utc_def datetime.equality)
  from c known obtain dt'' where
    "convert_timezone tzm example_tzdb tomorrow_naive ''UTC'' = Inr dt''"
    "utcoffset dt'' = Some (offset_at_utc utc (instant tzm tomorrow_naive))"
    "wall dt'' = instant tzm tomorrow_naive + offset_at_utc utc (instant tzm tomorrow_naive)"
    by blast
  then have 3: "convert_timezone tzm example_tzdb tomorrow_naive ''UTC'' = Inr tomorrow_utc"
    by (simp add: 4 utc_def tomorrow_utc_def datetime.equality)
  from 1 2 3 4 5 6 show ?thesis by (simp add: tzm_def s_def)
qed


section \<open>The minimum length of a stored name\<close>






end
